theory Spec2Isabelle
  imports Complex_Main
begin

section \<open>JavaScript numbers\<close>

text \<open>
  The program computes with JavaScript \<open>number\<close>s (IEEE doubles). Finite doubles are
  idealised as reals: rounding error, overflow and the sign of zero are not modelled,
  except in the loops \<open>simLoop_fl\<close> and \<open>dataLoop_fl\<close> below, where the rounding of the
  sample position is explicit.
  The non-finite values are kept, because the code produces and tests them: \<open>NaN\<close> is
  assigned in the simulator and returned by \<open>parseFloat\<close> on an empty field, and a
  division by zero gives an infinity.
\<close>

datatype jsnum = Num real | PosInf | NegInf | NaN

text \<open>The sign of an infinite product or quotient: \<open>None\<close> stands for a zero factor.\<close>

fun sign_of :: "jsnum \<Rightarrow> bool option" where
  "sign_of (Num u) = (if 0 < u then Some True else if u < 0 then Some False else None)"
| "sign_of PosInf = Some True"
| "sign_of NegInf = Some False"
| "sign_of NaN = None"

fun signed_inf :: "bool option \<Rightarrow> bool option \<Rightarrow> jsnum" where
  "signed_inf (Some s) (Some t) = (if s = t then PosInf else NegInf)"
| "signed_inf _ _ = NaN"

text \<open>
  Division: a finite quotient when the divisor is a non-zero real; \<open>u / 0\<close> is an infinity
  with the sign of \<open>u\<close> (the divisor is taken as \<open>+0\<close>) and \<open>0 / 0\<close> is \<open>NaN\<close>.
\<close>

fun quotient :: "jsnum \<Rightarrow> jsnum \<Rightarrow> jsnum" where
  "quotient (Num u) (Num v) =
     (if v \<noteq> 0 then Num (u / v) else signed_inf (sign_of (Num u)) (Some True))"
| "quotient NaN _ = NaN"
| "quotient _ NaN = NaN"
| "quotient (Num u) _ = Num 0"
| "quotient u (Num v) = signed_inf (sign_of u) (Some (0 \<le> v))"
| "quotient _ _ = NaN"

instantiation jsnum :: "{plus, minus, uminus, times, inverse, ord}"
begin

fun uminus_jsnum :: "jsnum \<Rightarrow> jsnum" where
  "uminus_jsnum (Num u) = Num (- u)"
| "uminus_jsnum PosInf = NegInf"
| "uminus_jsnum NegInf = PosInf"
| "uminus_jsnum NaN = NaN"

fun plus_jsnum :: "jsnum \<Rightarrow> jsnum \<Rightarrow> jsnum" where
  "plus_jsnum (Num u) (Num v) = Num (u + v)"
| "plus_jsnum NaN _ = NaN"
| "plus_jsnum _ NaN = NaN"
| "plus_jsnum PosInf NegInf = NaN"
| "plus_jsnum NegInf PosInf = NaN"
| "plus_jsnum PosInf _ = PosInf"
| "plus_jsnum _ PosInf = PosInf"
| "plus_jsnum NegInf _ = NegInf"
| "plus_jsnum _ NegInf = NegInf"

definition minus_jsnum :: "jsnum \<Rightarrow> jsnum \<Rightarrow> jsnum" where
  "minus_jsnum u v = u + (- v)"

fun times_jsnum :: "jsnum \<Rightarrow> jsnum \<Rightarrow> jsnum" where
  "times_jsnum (Num u) (Num v) = Num (u * v)"
| "times_jsnum NaN _ = NaN"
| "times_jsnum _ NaN = NaN"
| "times_jsnum u v = signed_inf (sign_of u) (sign_of v)"

definition divide_jsnum :: "jsnum \<Rightarrow> jsnum \<Rightarrow> jsnum" where
  "divide_jsnum u v = quotient u v"

definition inverse_jsnum :: "jsnum \<Rightarrow> jsnum" where
  "inverse_jsnum u = quotient (Num 1) u"

text \<open>Comparisons: every comparison with \<open>NaN\<close> is false.\<close>

fun less_jsnum :: "jsnum \<Rightarrow> jsnum \<Rightarrow> bool" where
  "less_jsnum (Num u) (Num v) = (u < v)"
| "less_jsnum NaN _ = False"
| "less_jsnum _ NaN = False"
| "less_jsnum _ NegInf = False"
| "less_jsnum PosInf _ = False"
| "less_jsnum NegInf _ = True"
| "less_jsnum _ PosInf = True"

fun less_eq_jsnum :: "jsnum \<Rightarrow> jsnum \<Rightarrow> bool" where
  "less_eq_jsnum (Num u) (Num v) = (u \<le> v)"
| "less_eq_jsnum NaN _ = False"
| "less_eq_jsnum _ NaN = False"
| "less_eq_jsnum NegInf _ = True"
| "less_eq_jsnum _ PosInf = True"
| "less_eq_jsnum _ NegInf = False"
| "less_eq_jsnum PosInf _ = False"

instance ..

end

text \<open>Strict equality \<open>===\<close> on numbers: \<open>NaN\<close> is not equal to itself.\<close>

definition strict_eq :: "jsnum \<Rightarrow> jsnum \<Rightarrow> bool" where
  "strict_eq u v = (u \<noteq> NaN \<and> u = v)"

text \<open>A number is falsy when it is zero or \<open>NaN\<close>.\<close>

fun truthy :: "jsnum \<Rightarrow> bool" where
  "truthy (Num u) = (u \<noteq> 0)"
| "truthy NaN = False"
| "truthy _ = True"

text \<open>\<open>v || d\<close> for an optional numeric field (\<open>None\<close> is \<open>undefined\<close>).\<close>

fun num_or :: "jsnum option \<Rightarrow> jsnum \<Rightarrow> jsnum" where
  "num_or None d = d"
| "num_or (Some v) d = (if truthy v then v else d)"

text \<open>\<open>s || d\<close> for an optional string: \<open>undefined\<close> and the empty string are falsy.\<close>

fun str_or :: "string option \<Rightarrow> string \<Rightarrow> string" where
  "str_or None d = d"
| "str_or (Some s) d = (if s = [] then d else s)"

text \<open>\<open>Math.round\<close> rounds to the nearest integer, halves towards \<open>+\<infinity>\<close>.\<close>

fun Math_round :: "jsnum \<Rightarrow> jsnum" where
  "Math_round (Num u) = Num (of_int \<lfloor>u + 1 / 2\<rfloor>)"
| "Math_round u = u"

fun Math_abs :: "jsnum \<Rightarrow> jsnum" where
  "Math_abs (Num u) = Num \<bar>u\<bar>"
| "Math_abs NaN = NaN"
| "Math_abs _ = PosInf"

fun Math_sqrt :: "jsnum \<Rightarrow> jsnum" where
  "Math_sqrt (Num u) = (if 0 \<le> u then Num (sqrt u) else NaN)"
| "Math_sqrt PosInf = PosInf"
| "Math_sqrt _ = NaN"

definition is_integer :: "real \<Rightarrow> bool" where
  "is_integer u = (u = of_int \<lfloor>u\<rfloor>)"

text \<open>
  \<open>Math.pow\<close> at a finite non-zero exponent. A negative base has a real power at integer
  exponents only; elsewhere the result is \<open>NaN\<close>.
\<close>

fun pow_finite :: "jsnum \<Rightarrow> real \<Rightarrow> jsnum" where
  "pow_finite (Num u) e =
     (if 0 < u then Num (u powr e)
      else if u = 0 then (if 0 < e then Num 0 else PosInf)
      else if is_integer e then Num (u powi \<lfloor>e\<rfloor>)
      else NaN)"
| "pow_finite NaN e = NaN"
| "pow_finite PosInf e = (if 0 < e then PosInf else Num 0)"
| "pow_finite NegInf e =
     (if e < 0 then Num 0 else if is_integer e \<and> odd \<lfloor>e\<rfloor> then NegInf else PosInf)"

fun Math_pow :: "jsnum \<Rightarrow> jsnum \<Rightarrow> jsnum" where
  "Math_pow u NaN = NaN"
| "Math_pow u (Num e) = (if e = 0 then Num 1 else pow_finite u e)"
| "Math_pow NaN _ = NaN"
| "Math_pow u PosInf =
     (if Num 1 < Math_abs u then PosInf else if Math_abs u = Num 1 then NaN else Num 0)"
| "Math_pow u NegInf =
     (if Num 1 < Math_abs u then Num 0 else if Math_abs u = Num 1 then NaN else PosInf)"

text \<open>The decimal digits of a natural number, as a template literal prints \<open>Date.now()\<close>.\<close>

definition digit :: "nat \<Rightarrow> char" where
  "digit n = ''0123456789'' ! n"

fun string_of_nat :: "nat \<Rightarrow> string" where
  "string_of_nat n =
     (if n < 10 then [digit n] else string_of_nat (n div 10) @ [digit (n mod 10)])"

text \<open>
  Where a property depends on how the machine rounds, the rounding is explicit: \<open>fl\<close>
  maps the exact result of an operation to the number that is stored, and \<open>rounded fl\<close>
  applies it to a finite result.
\<close>

fun rounded :: "(real \<Rightarrow> real) \<Rightarrow> jsnum \<Rightarrow> jsnum" where
  "rounded fl (Num u) = Num (fl u)"
| "rounded fl u = u"



section \<open>Model definitions (types.ts)\<close>

text \<open>
  Field names carry a prefix where the source's name is a single letter or a constant of
  HOL (\<open>m\<close>, \<open>x\<close>, \<open>id\<close>, \<open>min\<close>, \<open>range\<close>, ...).
\<close>

datatype FunctionType = LINEAR | QUADRATIC | EXPONENTIAL | RATIONAL

record LinearParams =
  lin_m :: jsnum
  lin_n :: jsnum

record QuadraticParams =
  quad_a :: jsnum
  quad_b :: jsnum
  quad_c :: jsnum

record ExponentialParams =
  exp_base :: jsnum
  exp_k :: jsnum

record DataPoint =
  pt_x :: jsnum
  pt_y :: jsnum
  pt_y2 :: "jsnum option"

datatype error = TypeError

section \<open>SimulatorView\<close>

text \<open>The component \<open>SimulatorView\<close>, the second part of \<open>src/App.tsx\<close>.\<close>

datatype SimParams =
  OfLinear LinearParams | OfQuadratic QuadraticParams | OfExponential ExponentialParams

record SavedSimulation =
  sim_id :: nat
  sim_name :: string
  sim_type :: FunctionType
  sim_params :: SimParams
  sim_timestamp :: string

record SimulatorState =
  activeTab :: FunctionType
  linear :: LinearParams
  quadratic :: QuadraticParams
  exponential :: ExponentialParams
  xrange :: jsnum
  savedSimulations :: "SavedSimulation list"

definition initialSimulator :: SimulatorState where
  "initialSimulator =
     \<lparr>activeTab = LINEAR,
      linear = \<lparr>lin_m = Num 2, lin_n = Num 1\<rparr>,
      quadratic = \<lparr>quad_a = Num 1, quad_b = Num (- 6), quad_c = Num 5\<rparr>,
      exponential = \<lparr>exp_base = Num (3 / 2), exp_k = Num 1\<rparr>,
      xrange = Num 10,
      savedSimulations = []\<rparr>"

text \<open>The \<open>switch\<close> of the sampling loop: the value of \<open>y\<close> at the rounded \<open>cleanX\<close>.\<close>

definition simY :: "SimulatorState \<Rightarrow> jsnum \<Rightarrow> jsnum" where
  "simY st cleanX =
     (case activeTab st of
        LINEAR \<Rightarrow> lin_m (linear st) * cleanX + lin_n (linear st)
      | QUADRATIC \<Rightarrow>
          quad_a (quadratic st) * Math_pow cleanX (Num 2) + quad_b (quadratic st) * cleanX
            + quad_c (quadratic st)
      | EXPONENTIAL \<Rightarrow>
          (if Num 0 < exp_base (exponential st)
           then exp_k (exponential st) * Math_pow (exp_base (exponential st)) cleanX
           else NaN)
      | RATIONAL \<Rightarrow> Num 0)"

text \<open>
  The loop \<open>for (let x = start; x <= end; x += step)\<close> of the simulator's \<open>data\<close>. The
  result \<open>None\<close> stands for a loop that never ends.
\<close>

partial_function (option) simLoop ::
  "SimulatorState \<Rightarrow> jsnum \<Rightarrow> jsnum \<Rightarrow> jsnum \<Rightarrow> DataPoint list \<Rightarrow> DataPoint list option"
where
  "simLoop st step endx x points =
     (if x \<le> endx then
        (let cleanX = Math_round (x * Num 10) / Num 10;
             y = simY st cleanX
         in simLoop st step endx (x + step)
              (if Math_abs y < Num 200
               then points @ [\<lparr>pt_x = cleanX, pt_y = y, pt_y2 = None\<rparr>]
               else points))
      else Some points)"

definition simData :: "SimulatorState \<Rightarrow> DataPoint list option" where
  "simData st =
     (let step = Num (1 / 2);
          start = - Math_abs (xrange st);
          endx = Math_abs (xrange st)
      in simLoop st step endx start [])"

text \<open>
  The same loop and \<open>data\<close> with the rounding of the position's arithmetic explicit: the
  product \<open>x * 10\<close>, the quotient by 10 and the sum \<open>x + step\<close> are stored through \<open>fl\<close>
  (\<open>Math.round\<close>, \<open>Math.abs\<close> and the negation are exact on doubles). With \<open>fl\<close> the
  identity this is \<open>simLoop\<close>; with \<open>binary64\<close> the position is computed as on doubles.
  The value \<open>y\<close> is evaluated as in \<open>simY\<close>.
\<close>

partial_function (option) simLoop_fl ::
  "(real \<Rightarrow> real) \<Rightarrow> SimulatorState \<Rightarrow> jsnum \<Rightarrow> jsnum \<Rightarrow> jsnum \<Rightarrow> DataPoint list \<Rightarrow>
     DataPoint list option"
where
  "simLoop_fl fl st step endx x points =
     (if x \<le> endx then
        (let cleanX = rounded fl (Math_round (rounded fl (x * Num 10)) / Num 10);
             y = simY st cleanX
         in simLoop_fl fl st step endx (rounded fl (x + step))
              (if Math_abs y < Num 200
               then points @ [\<lparr>pt_x = cleanX, pt_y = y, pt_y2 = None\<rparr>]
               else points))
      else Some points)"

definition simData_fl :: "(real \<Rightarrow> real) \<Rightarrow> SimulatorState \<Rightarrow> DataPoint list option" where
  "simData_fl fl st =
     (let step = Num (1 / 2);
          start = - Math_abs (xrange st);
          endx = Math_abs (xrange st)
      in simLoop_fl fl st step endx start [])"

text \<open>
  The analysis panels: \<open>getQuadraticAnalysis\<close>, and the list that the view renders for
  the exponential tab (\<open>exponentialAnalysis\<close> here). The numbers are the arguments of
  \<open>toFixed(2)\<close>: the rendering to two decimals is left to the view. The two concavity
  labels and \<open>NoReales\<close> stand for the source's strings.
\<close>

datatype concavity = Convexa | Concava

datatype roots = NoReales | OneRoot jsnum | TwoRoots jsnum jsnum

record QuadraticAnalysis =
  concavidad :: concavity
  vertice :: "jsnum \<times> jsnum"
  discriminante :: jsnum
  raices :: roots

definition getQuadraticAnalysis :: "QuadraticParams \<Rightarrow> QuadraticAnalysis" where
  "getQuadraticAnalysis q =
     (let vx = - quad_b q / (Num 2 * quad_a q);
          vy = quad_a q * Math_pow vx (Num 2) + quad_b q * vx + quad_c q;
          delta = Math_pow (quad_b q) (Num 2) - Num 4 * quad_a q * quad_c q
      in \<lparr>concavidad = (if Num 0 < quad_a q then Convexa else Concava),
          vertice = (vx, vy),
          discriminante = delta,
          raices =
            (if delta < Num 0 then NoReales
             else if strict_eq delta (Num 0) then OneRoot vx
             else TwoRoots ((- quad_b q + Math_sqrt delta) / (Num 2 * quad_a q))
                    ((- quad_b q - Math_sqrt delta) / (Num 2 * quad_a q)))\<rparr>)"

record ExponentialAnalysis =
  tipo :: string
  corteEjeY :: jsnum
  asintota :: string

definition exponentialAnalysis :: "ExponentialParams \<Rightarrow> ExponentialAnalysis" where
  "exponentialAnalysis e =
     \<lparr>tipo = (if Num 1 < exp_base e then ''Creciente'' else ''Decreciente''),
      corteEjeY = exp_k e,
      asintota = ''y = 0''\<rparr>"

text \<open>
  \<open>handleSave\<close>: \<open>name\<close> is what \<open>prompt\<close> returned (\<open>None\<close> when the dialog was
  cancelled), \<open>now\<close> is \<open>Date.now()\<close> and \<open>today\<close> the formatted date.
\<close>

definition handleSave :: "string option \<Rightarrow> nat \<Rightarrow> string \<Rightarrow> SimulatorState \<Rightarrow> SimulatorState" where
  "handleSave name now today st =
     (case name of
        None \<Rightarrow> st
      | Some nm \<Rightarrow>
          if nm = [] then st
          else
            (let ps = (if activeTab st = LINEAR then OfLinear (linear st)
                       else if activeTab st = QUADRATIC then OfQuadratic (quadratic st)
                       else OfExponential (exponential st));
                 newSim = \<lparr>sim_id = now, sim_name = nm, sim_type = activeTab st,
                           sim_params = ps, sim_timestamp = today\<rparr>
             in st\<lparr>savedSimulations := savedSimulations st @ [newSim]\<rparr>))"

section \<open>ProblemsView\<close>

text \<open>The component of \<open>src/components/ProblemsView.tsx\<close>.\<close>

datatype ProblemType = linear_comparison | exponential_growth | exponential_decay | linear_simple

text \<open>The optional numeric parameters: \<open>None\<close> is an absent field (\<open>undefined\<close>).\<close>

record Params =
  base :: "jsnum option"
  initial :: "jsnum option"
  slope :: "jsnum option"
  intercept :: "jsnum option"
  slope2 :: "jsnum option"
  intercept2 :: "jsnum option"

record Labels =
  lab_x :: string
  lab_y :: string
  series1 :: string
  series2 :: "string option"

record Range =
  rmin :: jsnum
  rmax :: jsnum
  rstep :: jsnum
  defaultVal :: jsnum

record ProblemModel =
  pid :: string
  title :: string
  ptype :: ProblemType
  description :: string
  isCustom :: bool
  params :: Params
  labels :: Labels
  prange :: Range

text \<open>
  The accented letters of the built-in texts, as their UTF-8 bytes (an Isabelle string
  literal holds ASCII only).
\<close>

definition a_acute :: string where "a_acute = [CHR 0xC3, CHR 0xA1]"
definition i_acute :: string where "i_acute = [CHR 0xC3, CHR 0xAD]"
definition o_acute :: string where "o_acute = [CHR 0xC3, CHR 0xB3]"
definition u_acute :: string where "u_acute = [CHR 0xC3, CHR 0xBA]"
definition n_tilde :: string where "n_tilde = [CHR 0xC3, CHR 0xB1]"

definition no_params :: Params where
  "no_params = \<lparr>base = None, initial = None, slope = None, intercept = None,
                 slope2 = None, intercept2 = None\<rparr>"

definition car_rental :: ProblemModel where
  "car_rental =
     \<lparr>pid = ''car_rental'',
      title = ''Alquiler de Veh'' @ i_acute @ ''culos'',
      ptype = linear_comparison,
      description = ''Comparaci'' @ o_acute @ ''n de costos entre dos compa'' @ n_tilde
        @ i_acute @ ''as seg'' @ u_acute @ ''n la distancia.'',
      isCustom = False,
      params = no_params\<lparr>slope := Some (Num (1 / 2)), intercept := Some (Num 45),
                 slope2 := Some (Num (1 / 5)), intercept2 := Some (Num 60)\<rparr>,
      labels = \<lparr>lab_x = ''Distancia (km)'', lab_y = ''Costo ($)'',
                series1 = ''Compa'' @ n_tilde @ i_acute @ ''a A'',
                series2 = Some (''Compa'' @ n_tilde @ i_acute @ ''a B'')\<rparr>,
      prange = \<lparr>rmin = Num 0, rmax = Num 100, rstep = Num 1, defaultVal = Num 30\<rparr>\<rparr>"

definition snowball :: ProblemModel where
  "snowball =
     \<lparr>pid = ''snowball'',
      title = ''Bola de Nieve'',
      ptype = exponential_growth,
      description = ''Crecimiento de peso de una bola de nieve al rodar (5% por seg).'',
      isCustom = False,
      params = no_params\<lparr>initial := Some (Num 10), base := Some (Num (105 / 100))\<rparr>,
      labels = \<lparr>lab_x = ''Tiempo (s)'', lab_y = ''Peso (kg)'', series1 = ''Peso'',
                series2 = None\<rparr>,
      prange = \<lparr>rmin = Num 0, rmax = Num 30, rstep = Num 1, defaultVal = Num 5\<rparr>\<rparr>"

definition anesthesia :: ProblemModel where
  "anesthesia =
     \<lparr>pid = ''anesthesia'',
      title = ''Concentraci'' @ o_acute @ ''n Anestesia'',
      ptype = exponential_decay,
      description = ''Eliminaci'' @ o_acute @ ''n de f'' @ a_acute
        @ ''rmaco en sangre (5% por minuto).'',
      isCustom = False,
      params = no_params\<lparr>initial := Some (Num 100), base := Some (Num (95 / 100))\<rparr>,
      labels = \<lparr>lab_x = ''Tiempo (min)'',
                lab_y = ''Concentraci'' @ o_acute @ ''n (%)'', series1 = ''Nivel'',
                series2 = None\<rparr>,
      prange = \<lparr>rmin = Num 0, rmax = Num 60, rstep = Num 1, defaultVal = Num 10\<rparr>\<rparr>"

definition DEFAULT_PROBLEMS :: "ProblemModel list" where
  "DEFAULT_PROBLEMS = [car_rental, snowball, anesthesia]"

text \<open>
  The form's draft, \<open>Partial<ProblemModel>\<close>: every field may be absent. The type is always
  set (the initial draft has it and the selector only replaces it), which is what the
  cast \<open>newProblem.type as ProblemType\<close> relies on.
\<close>

record Draft =
  d_title :: "string option"
  d_type :: ProblemType
  d_description :: "string option"
  d_params :: "Params option"
  d_labels :: "Labels option"
  d_range :: "Range option"

definition initialDraft :: Draft where
  "initialDraft =
     \<lparr>d_title = None, d_type = linear_simple, d_description = None, d_params = None,
      d_labels = Some \<lparr>lab_x = ''X'', lab_y = ''Y'',
                       series1 = ''Funci'' @ o_acute @ ''n'', series2 = None\<rparr>,
      d_range = Some \<lparr>rmin = Num 0, rmax = Num 50, rstep = Num 1, defaultVal = Num 10\<rparr>\<rparr>"

text \<open>
  The component's state, with the value stored under \<open>LOCAL_STORAGE_KEY\<close>
  (\<open>None\<close> when the key is absent). The slider's \<open>inputValue\<close>, which none of the
  functions below reads, is left out.
\<close>

record ProblemsState =
  problems :: "ProblemModel list"
  activeId :: string
  showModal :: bool
  newProblem :: Draft
  localStorage :: "string option"

text \<open>
  The initializer of \<open>problems\<close>. \<open>parse\<close> is \<open>JSON.parse\<close> followed by the spread into
  the catalog: \<open>None\<close> when either throws (the \<open>catch\<close> branch).
\<close>

definition initProblems ::
  "(string \<Rightarrow> ProblemModel list option) \<Rightarrow> string option \<Rightarrow> ProblemModel list" where
  "initProblems parse saved =
     (case saved of
        None \<Rightarrow> DEFAULT_PROBLEMS
      | Some s \<Rightarrow>
          if s = [] then DEFAULT_PROBLEMS
          else (case parse s of
                  Some customProblems \<Rightarrow> DEFAULT_PROBLEMS @ customProblems
                | None \<Rightarrow> DEFAULT_PROBLEMS))"

definition initialState ::
  "(string \<Rightarrow> ProblemModel list option) \<Rightarrow> string option \<Rightarrow> ProblemsState" where
  "initialState parse saved =
     \<lparr>problems = initProblems parse saved, activeId = ''car_rental'', showModal = False,
      newProblem = initialDraft, localStorage = saved\<rparr>"

text \<open>
  The effect that runs after the first render and whenever \<open>problems\<close> has changed;
  \<open>stringify\<close> is \<open>JSON.stringify\<close>.
\<close>

definition saveEffect :: "(ProblemModel list \<Rightarrow> string) \<Rightarrow> ProblemsState \<Rightarrow> ProblemsState" where
  "saveEffect stringify st =
     (let customProblems = filter isCustom (problems st)
      in st\<lparr>localStorage := Some (stringify customProblems)\<rparr>)"

text \<open>\<open>problems.find(p => p.id === activeId) || problems[0]\<close>; \<open>None\<close> is \<open>undefined\<close>.\<close>

definition activeProblem :: "ProblemsState \<Rightarrow> ProblemModel option" where
  "activeProblem st =
     (case find (\<lambda>p. pid p = activeId st) (problems st) of
        Some p \<Rightarrow> Some p
      | None \<Rightarrow> (case problems st of [] \<Rightarrow> None | p # _ \<Rightarrow> Some p))"

text \<open>The body of the sampling loop: the point pushed for \<open>cleanX\<close>.\<close>

definition dataPoint :: "ProblemModel \<Rightarrow> jsnum \<Rightarrow> DataPoint" where
  "dataPoint p cleanX =
     (let ps = params p in
      if ptype p = linear_comparison then
        \<lparr>pt_x = cleanX,
         pt_y = num_or (intercept ps) (Num 0) + num_or (slope ps) (Num 0) * cleanX,
         pt_y2 = Some (num_or (intercept2 ps) (Num 0) + num_or (slope2 ps) (Num 0) * cleanX)\<rparr>
      else if ptype p = linear_simple then
        \<lparr>pt_x = cleanX,
         pt_y = num_or (intercept ps) (Num 0) + num_or (slope ps) (Num 0) * cleanX,
         pt_y2 = None\<rparr>
      else if ptype p = exponential_growth \<or> ptype p = exponential_decay then
        \<lparr>pt_x = cleanX,
         pt_y = num_or (initial ps) (Num 1) * Math_pow (num_or (base ps) (Num 1)) cleanX,
         pt_y2 = None\<rparr>
      else \<lparr>pt_x = cleanX, pt_y = Num 0, pt_y2 = None\<rparr>)"

partial_function (option) dataLoop ::
  "ProblemModel \<Rightarrow> jsnum \<Rightarrow> DataPoint list \<Rightarrow> DataPoint list option"
where
  "dataLoop p x points =
     (if x \<le> rmax (prange p) then
        (let cleanX = Math_round (x * Num 100) / Num 100
         in dataLoop p (x + rstep (prange p)) (points @ [dataPoint p cleanX]))
      else Some points)"

definition problemData :: "ProblemModel \<Rightarrow> DataPoint list option" where
  "problemData p = dataLoop p (rmin (prange p)) []"

text \<open>
  The same loop with the rounding of the position's arithmetic explicit, as in
  \<open>simLoop_fl\<close>: the product \<open>x * 100\<close>, the quotient by 100 and the sum \<open>x + step\<close> are
  stored through \<open>fl\<close>.
\<close>

partial_function (option) dataLoop_fl ::
  "(real \<Rightarrow> real) \<Rightarrow> ProblemModel \<Rightarrow> jsnum \<Rightarrow> DataPoint list \<Rightarrow> DataPoint list option"
where
  "dataLoop_fl fl p x points =
     (if x \<le> rmax (prange p) then
        (let cleanX = rounded fl (Math_round (rounded fl (x * Num 100)) / Num 100)
         in dataLoop_fl fl p (rounded fl (x + rstep (prange p))) (points @ [dataPoint p cleanX]))
      else Some points)"

definition problemData_fl :: "(real \<Rightarrow> real) \<Rightarrow> ProblemModel \<Rightarrow> DataPoint list option" where
  "problemData_fl fl p = dataLoop_fl fl p (rmin (prange p)) []"

text \<open>\<open>data\<close>: reading \<open>activeProblem.range\<close> throws when nothing resolves.\<close>

definition data :: "ProblemsState \<Rightarrow> error + DataPoint list option" where
  "data st = (case activeProblem st of None \<Rightarrow> Inl TypeError | Some p \<Rightarrow> Inr (problemData p))"

text \<open>
  \<open>handleAddProblem\<close>; \<open>now\<close> is \<open>Date.now()\<close>. \<open>Number\<close> is applied to numbers only and
  returns them as they are.
\<close>

definition handleAddProblem :: "nat \<Rightarrow> ProblemsState \<Rightarrow> ProblemsState" where
  "handleAddProblem now st =
     (let np = newProblem st;
          i = ''custom_'' @ string_of_nat now;
          p = \<lparr>pid = i,
               title = str_or (d_title np) ''Nuevo Problema'',
               ptype = d_type np,
               description = str_or (d_description np)
                 (''Descripci'' @ o_acute @ ''n del problema''),
               isCustom = True,
               params =
                 \<lparr>base = Some (num_or (Option.bind (d_params np) base) (Num (11 / 10))),
                  initial = Some (num_or (Option.bind (d_params np) initial) (Num 10)),
                  slope = Some (num_or (Option.bind (d_params np) slope) (Num 1)),
                  intercept = Some (num_or (Option.bind (d_params np) intercept) (Num 0)),
                  slope2 = Some (num_or (Option.bind (d_params np) slope2) (Num 1)),
                  intercept2 = Some (num_or (Option.bind (d_params np) intercept2) (Num 0))\<rparr>,
               labels =
                 \<lparr>lab_x = str_or (map_option lab_x (d_labels np)) ''X'',
                  lab_y = str_or (map_option lab_y (d_labels np)) ''Y'',
                  series1 = str_or (map_option series1 (d_labels np)) ''Serie 1'',
                  series2 = Some (str_or (Option.bind (d_labels np) series2) ''Serie 2'')\<rparr>,
               prange =
                 \<lparr>rmin = Num 0,
                  rmax = num_or (map_option rmax (d_range np)) (Num 50),
                  rstep = Num 1,
                  defaultVal = Num 0\<rparr>\<rparr>
      in st\<lparr>problems := problems st @ [p], activeId := i, showModal := False\<rparr>)"

text \<open>
  \<open>handleDelete\<close>: reading \<open>newDocs[0].id\<close> throws when nothing is left.
\<close>

definition handleDelete :: "string \<Rightarrow> ProblemsState \<Rightarrow> error + ProblemsState" where
  "handleDelete i st =
     (let newDocs = filter (\<lambda>p. pid p \<noteq> i) (problems st) in
      if activeId st = i then
        (case newDocs of
           [] \<Rightarrow> Inl TypeError
         | d # _ \<Rightarrow> Inr (st\<lparr>problems := newDocs, activeId := pid d\<rparr>))
      else Inr (st\<lparr>problems := newDocs\<rparr>))"

text \<open>
  The sidebar renders a delete button for the entries with \<open>isCustom\<close> only
  (\<open>p.isCustom && <button onClick={(e) => handleDelete(p.id, e)}>\<close>).
\<close>

definition deleteButtons :: "ProblemsState \<Rightarrow> ProblemModel list" where
  "deleteButtons st = filter isCustom (problems st)"

text \<open>
  The store's transitions as the user triggers them: the handler, then the effect on
  the changed catalog. The modal's \<open>Cancelar\<close> button only closes the modal.
\<close>

definition create :: "(ProblemModel list \<Rightarrow> string) \<Rightarrow> nat \<Rightarrow> ProblemsState \<Rightarrow> ProblemsState" where
  "create stringify now st = saveEffect stringify (handleAddProblem now st)"

definition delete ::
  "(ProblemModel list \<Rightarrow> string) \<Rightarrow> string \<Rightarrow> ProblemsState \<Rightarrow> error + ProblemsState" where
  "delete stringify i st =
     (case handleDelete i st of Inl e \<Rightarrow> Inl e | Inr st' \<Rightarrow> Inr (saveEffect stringify st'))"

definition cancelModal :: "ProblemsState \<Rightarrow> ProblemsState" where
  "cancelModal st = st\<lparr>showModal := False\<rparr>"

section \<open>Notions used to state the properties\<close>

text \<open>Rounding to a fixed number of decimals: \<open>Math.round(u * f) / f\<close> on a real.\<close>

definition round_to :: "real \<Rightarrow> real \<Rightarrow> real" where
  "round_to f u = of_int \<lfloor>u * f + 1 / 2\<rfloor> / f"

text \<open>
  The raw values of the loop variable: \<open>lo\<close>, \<open>lo + s\<close>, \<open>lo + 2 s\<close>, ... as long as they
  do not exceed \<open>hi\<close>.
\<close>

definition grid :: "real \<Rightarrow> real \<Rightarrow> real \<Rightarrow> real list" where
  "grid lo hi s = map (\<lambda>k. lo + real k * s) [0..<nat (\<lfloor>(hi - lo) / s\<rfloor> + 1)]"

text \<open>The simulator's candidate point at a raw \<open>x\<close>, and the test that lets it through.\<close>

definition simPoint :: "SimulatorState \<Rightarrow> real \<Rightarrow> DataPoint" where
  "simPoint st raw =
     \<lparr>pt_x = Num (round_to 10 raw), pt_y = simY st (Num (round_to 10 raw)), pt_y2 = None\<rparr>"

definition plotted :: "DataPoint \<Rightarrow> bool" where
  "plotted pt = (Math_abs (pt_y pt) < Num 200)"

text \<open>The simulator's candidates for a zoom range \<open>r\<close>, and a scenario's points on a range.\<close>

definition simCandidates :: "SimulatorState \<Rightarrow> real \<Rightarrow> DataPoint list" where
  "simCandidates st r = map (simPoint st) (grid (- \<bar>r\<bar>) \<bar>r\<bar> (1 / 2))"

definition problemPoints :: "ProblemModel \<Rightarrow> real \<Rightarrow> real \<Rightarrow> real \<Rightarrow> DataPoint list" where
  "problemPoints p lo hi s = map (\<lambda>raw. dataPoint p (Num (round_to 100 raw))) (grid lo hi s)"





text \<open>The built-in entries of a catalog, in their order.\<close>

definition builtins :: "ProblemsState \<Rightarrow> ProblemModel list" where
  "builtins st = filter (\<lambda>q. \<not> isCustom q) (problems st)"

text \<open>The catalog holds the three built-in problems.\<close>

definition has_builtins :: "ProblemsState \<Rightarrow> bool" where
  "has_builtins st = (set DEFAULT_PROBLEMS \<subseteq> set (problems st))"

text \<open>
  The shape of the catalog that the initializer and the handlers maintain: the built-ins
  in their fixed order, then custom entries whose ids are not built-in ids.
\<close>

definition custom_entry :: "ProblemModel \<Rightarrow> bool" where
  "custom_entry c = (isCustom c \<and> pid c \<notin> set (map pid DEFAULT_PROBLEMS))"

definition well_formed :: "ProblemModel list \<Rightarrow> bool" where
  "well_formed ps = (\<exists>cs. ps = DEFAULT_PROBLEMS @ cs \<and> list_all custom_entry cs)"

text \<open>
  The id given at a clock value, and a catalog whose ids are built-in ids or the ids given
  at the clock values \<open>earlier\<close>.
\<close>

definition custom_id :: "nat \<Rightarrow> string" where
  "custom_id n = ''custom_'' @ string_of_nat n"

definition ids_from_clock :: "nat list \<Rightarrow> ProblemModel list \<Rightarrow> bool" where
  "ids_from_clock earlier ps =
     list_all (\<lambda>q. pid q \<in> set (map pid DEFAULT_PROBLEMS) \<or>
                   pid q \<in> set (map custom_id earlier)) ps"

text \<open>
  Default-filling as the specification words it: an unset input (absent, or the \<open>NaN\<close>
  of an emptied field) takes the default \<open>d\<close>, and a supplied number is kept. What a
  supplied zero becomes is left open.
\<close>

fun default_filled :: "jsnum option \<Rightarrow> jsnum \<Rightarrow> jsnum option \<Rightarrow> bool" where
  "default_filled None d r = (r = Some d)"
| "default_filled (Some NaN) d r = (r = Some d)"
| "default_filled (Some (Num v)) d r = (v = 0 \<or> r = Some (Num v))"
| "default_filled (Some PosInf) d r = (r = Some PosInf)"
| "default_filled (Some NegInf) d r = (r = Some NegInf)"

subsection \<open>Example states and entries\<close>

definition builtin_state :: ProblemsState where
  "builtin_state =
     \<lparr>problems = DEFAULT_PROBLEMS, activeId = ''car_rental'', showModal = False,
      newProblem = initialDraft, localStorage = None\<rparr>"

text \<open>The entry that \<open>handleAddProblem\<close> builds from the untouched form at time 5.\<close>

definition custom_5 :: ProblemModel where
  "custom_5 =
     \<lparr>pid = ''custom_5'',
      title = ''Nuevo Problema'',
      ptype = linear_simple,
      description = ''Descripci'' @ o_acute @ ''n del problema'',
      isCustom = True,
      params = \<lparr>base = Some (Num (11 / 10)), initial = Some (Num 10), slope = Some (Num 1),
                intercept = Some (Num 0), slope2 = Some (Num 1), intercept2 = Some (Num 0)\<rparr>,
      labels = \<lparr>lab_x = ''X'', lab_y = ''Y'', series1 = ''Funci'' @ o_acute @ ''n'',
                series2 = Some ''Serie 2''\<rparr>,
      prange = \<lparr>rmin = Num 0, rmax = Num 50, rstep = Num 1, defaultVal = Num 0\<rparr>\<rparr>"

definition custom_state :: ProblemsState where
  "custom_state = builtin_state\<lparr>problems := DEFAULT_PROBLEMS @ [custom_5], activeId := ''custom_5''\<rparr>"

text \<open>A state whose selection names no entry.\<close>

definition dangling_state :: ProblemsState where
  "dangling_state = builtin_state\<lparr>activeId := ''custom_9''\<rparr>"

text \<open>
  Stored custom entries that carry the ids of the built-in entries, the state that the
  initializer builds from them, and the states after the first two of them are deleted
  with their buttons.
\<close>

definition shadows :: "ProblemModel list" where
  "shadows =
     [car_rental\<lparr>isCustom := True\<rparr>, snowball\<lparr>isCustom := True\<rparr>,
      anesthesia\<lparr>isCustom := True\<rparr>]"

definition parse_shadows :: "string \<Rightarrow> ProblemModel list option" where
  "parse_shadows s = Some shadows"

definition shadowed_state :: ProblemsState where
  "shadowed_state = initialState parse_shadows (Some ''shadows'')"

definition after_first_delete :: ProblemsState where
  "after_first_delete =
     shadowed_state
       \<lparr>problems := [snowball, anesthesia, snowball\<lparr>isCustom := True\<rparr>,
                     anesthesia\<lparr>isCustom := True\<rparr>],
        activeId := ''snowball''\<rparr>"

definition after_second_delete :: ProblemsState where
  "after_second_delete =
     shadowed_state
       \<lparr>problems := [anesthesia, anesthesia\<lparr>isCustom := True\<rparr>],
        activeId := ''anesthesia''\<rparr>"

text \<open>
  A form filled with an exponential of base \<open>-2\<close> and a range up to 5, and the entry
  created from it at time 7.
\<close>

definition negative_base_draft :: Draft where
  "negative_base_draft =
     initialDraft
       \<lparr>d_type := exponential_growth,
        d_params := Some (no_params\<lparr>base := Some (Num (- 2))\<rparr>),
        d_range := Some \<lparr>rmin = Num 0, rmax = Num 5, rstep = Num 1, defaultVal = Num 10\<rparr>\<rparr>"

definition custom_7 :: ProblemModel where
  "custom_7 =
     custom_5
       \<lparr>pid := ''custom_7'',
        ptype := exponential_growth,
        params := (params custom_5)\<lparr>base := Some (Num (- 2))\<rparr>,
        prange := \<lparr>rmin = Num 0, rmax = Num 5, rstep = Num 1, defaultVal = Num 0\<rparr>\<rparr>"

text \<open>The state in which that form is submitted a second time at time 5.\<close>

definition refilled_state :: ProblemsState where
  "refilled_state = custom_state\<lparr>newProblem := negative_base_draft\<rparr>"

text \<open>
  The same exponential on a range with a half step, and linear entries with a step of
  \<open>1/256\<close>, that is 0.00390625, and of \<open>1/8\<close>.
\<close>

definition half_step_problem :: ProblemModel where
  "half_step_problem =
     custom_7\<lparr>prange := \<lparr>rmin = Num 0, rmax = Num 1, rstep = Num (1 / 2), defaultVal = Num 0\<rparr>\<rparr>"



text \<open>The simulator showing \<open>5 x\<^sup>2\<close> on the range 7, and the exponential with base 0.\<close>

definition steep_parabola :: SimulatorState where
  "steep_parabola =
     initialSimulator
       \<lparr>activeTab := QUADRATIC,
        quadratic := \<lparr>quad_a = Num 5, quad_b = Num 0, quad_c = Num 0\<rparr>,
        xrange := Num 7\<rparr>"

definition zero_base :: SimulatorState where
  "zero_base =
     initialSimulator
       \<lparr>activeTab := EXPONENTIAL, exponential := \<lparr>exp_base = Num 0, exp_k = Num 1\<rparr>\<rparr>"

definition narrow_line :: SimulatorState where
  "narrow_line = initialSimulator\<lparr>xrange := Num 1\<rparr>"

text \<open>A codec that never parses, and one that writes only the number of entries.\<close>

definition parse_fails :: "string \<Rightarrow> ProblemModel list option" where
  "parse_fails s = None"

definition count_only :: "ProblemModel list \<Rightarrow> string" where
  "count_only cs = string_of_nat (length cs)"

section \<open>Arithmetic on finite numbers\<close>

declare string_of_nat.simps [simp del]

lemma Num_minus [simp]: "Num u - Num v = Num (u - v)"
  by (simp add: minus_jsnum_def)

lemma Num_divide [simp]: "v \<noteq> 0 \<Longrightarrow> Num u / Num v = Num (u / v)"
  by (simp add: divide_jsnum_def)

lemma strict_eq_Num [simp]: "strict_eq (Num u) (Num v) \<longleftrightarrow> u = v"
  by (simp add: strict_eq_def)

lemma Math_pow_two: "Math_pow (Num u) (Num 2) = Num (u\<^sup>2)"
  by (simp add: is_integer_def)

lemma sqrt_16: "sqrt 16 = 4"
  by (rule real_sqrt_unique) simp_all

lemma quadratic_zero:
  assumes a: "(a::real) \<noteq> 0" and d: "d\<^sup>2 = b\<^sup>2 - 4 * a * c"
  shows "a * ((- b + d) / (2 * a))\<^sup>2 + b * ((- b + d) / (2 * a)) + c = 0"
proof -
  have "4 * a * (a * ((- b + d) / (2 * a))\<^sup>2 + b * ((- b + d) / (2 * a)) + c) =
      (- b + d)\<^sup>2 + 2 * b * (- b + d) + 4 * a * c"
    using a by (simp add: field_simps power2_eq_square)
  also have "\<dots> = d\<^sup>2 - b\<^sup>2 + 4 * a * c"
    by (simp add: power2_eq_square algebra_simps)
  also have "\<dots> = 0" by (simp add: d)
  finally show ?thesis using a by simp
qed

lemma string_of_nat_digit: "n < 10 \<Longrightarrow> string_of_nat n = [digit n]"
  by (subst string_of_nat.simps) simp

lemma string_of_nat_nonempty: "string_of_nat n \<noteq> []"
  by (subst string_of_nat.simps) simp

lemma digit_inj: "a < 10 \<Longrightarrow> b < 10 \<Longrightarrow> digit a = digit b \<Longrightarrow> a = b"
proof -
  assume a: "a < 10" and b: "b < 10" and e: "digit a = digit b"
  have d: "distinct ''0123456789''" by simp
  have "(''0123456789'' ! a = ''0123456789'' ! b) = (a = b)"
    by (rule nth_eq_iff_index_eq [OF d]) (use a b in simp_all)
  with e show "a = b" by (simp add: digit_def)
qed

lemma string_of_nat_inj: "string_of_nat n = string_of_nat m \<Longrightarrow> n = m"
proof (induction n arbitrary: m rule: less_induct)
  case (less n)
  show ?case
  proof (cases "n < 10")
    case n: True
    show ?thesis
    proof (cases "m < 10")
      case True
      with n less.prems show ?thesis
        by (simp add: string_of_nat_digit digit_inj)
    next
      case False
      then have "string_of_nat m = string_of_nat (m div 10) @ [digit (m mod 10)]"
        by (subst string_of_nat.simps) simp
      with less.prems n have "string_of_nat (m div 10) = []"
        by (simp add: string_of_nat_digit)
      then show ?thesis by (simp add: string_of_nat_nonempty)
    qed
  next
    case n: False
    then have en: "string_of_nat n = string_of_nat (n div 10) @ [digit (n mod 10)]"
      by (subst string_of_nat.simps) simp
    show ?thesis
    proof (cases "m < 10")
      case True
      with less.prems en have "string_of_nat (n div 10) = []"
        by (simp add: string_of_nat_digit)
      then show ?thesis by (simp add: string_of_nat_nonempty)
    next
      case False
      then have em: "string_of_nat m = string_of_nat (m div 10) @ [digit (m mod 10)]"
        by (subst string_of_nat.simps) simp
      from less.prems en em have q: "string_of_nat (n div 10) = string_of_nat (m div 10)"
        and r: "digit (n mod 10) = digit (m mod 10)" by simp_all
      from n have "n div 10 < n" by simp
      from less.IH [OF this q] have "n div 10 = m div 10" .
      moreover from r have "n mod 10 = m mod 10" by (rule digit_inj [rotated 2]) simp_all
      ultimately show ?thesis by (metis div_mult_mod_eq)
    qed
  qed
qed

section \<open>The grid of raw sample positions\<close>

lemma grid_empty: "0 < s \<Longrightarrow> hi < x \<Longrightarrow> grid x hi s = []"
proof -
  assume s: "0 < s" and "hi < x"
  then have "(hi - x) / s < 0" by (simp add: field_simps)
  then have "\<lfloor>(hi - x) / s\<rfloor> < 0" by (rule floor_less_zero [THEN iffD2])
  then have "nat (\<lfloor>(hi - x) / s\<rfloor> + 1) = 0" by linarith
  then show ?thesis by (simp only: grid_def upt_0 list.map)
qed

lemma grid_count_step:
  assumes s: "0 < s" and le: "x \<le> hi"
  shows "nat (\<lfloor>(hi - x) / s\<rfloor> + 1) = Suc (nat (\<lfloor>(hi - (x + s)) / s\<rfloor> + 1))"
proof -
  have "(hi - (x + s)) / s = (hi - x) / s - 1" using s by (simp add: field_simps)
  then have eq: "\<lfloor>(hi - (x + s)) / s\<rfloor> = \<lfloor>(hi - x) / s\<rfloor> - 1" by simp
  have "0 \<le> (hi - x) / s" using s le by simp
  then have "0 \<le> \<lfloor>(hi - x) / s\<rfloor>" by simp
  then have "nat (\<lfloor>(hi - x) / s\<rfloor> + 1) = Suc (nat \<lfloor>(hi - x) / s\<rfloor>)" by linarith
  with eq show ?thesis by simp
qed

lemma grid_step:
  assumes s: "0 < s" and le: "x \<le> hi"
  shows "grid x hi s = x # grid (x + s) hi s"
proof -
  let ?m = "nat (\<lfloor>(hi - (x + s)) / s\<rfloor> + 1)"
  have "grid x hi s = map (\<lambda>k. x + real k * s) [0..<Suc ?m]"
    by (simp only: grid_def grid_count_step [OF s le])
  also have "\<dots> = x # map (\<lambda>k. x + real (Suc k) * s) [0..<?m]"
    by (simp add: upt_conv_Cons map_Suc_upt [symmetric] del: upt_Suc)
  also have "map (\<lambda>k. x + real (Suc k) * s) [0..<?m] = grid (x + s) hi s"
    by (simp add: grid_def algebra_simps)
  finally show ?thesis .
qed





section \<open>Multiples of one half and the rounding of doubles\<close>





























section \<open>The sampling loops on finite ranges\<close>

lemma dataLoop_finite:
  assumes s: "0 < s" and hi: "rmax (prange p) = Num hi" and st: "rstep (prange p) = Num s"
  shows "dataLoop p (Num x) acc =
           Some (acc @ map (\<lambda>raw. dataPoint p (Num (round_to 100 raw))) (grid x hi s))"
proof (induction "nat (\<lfloor>(hi - x) / s\<rfloor> + 1)" arbitrary: x acc)
  case 0
  then have "\<lfloor>(hi - x) / s\<rfloor> < 0" by linarith
  then have "(hi - x) / s < 0" by linarith
  then have gt: "hi < x" using s by (simp add: field_simps)
  show ?case
    by (subst dataLoop.simps) (use gt in \<open>simp add: hi grid_empty [OF s]\<close>)
next
  case (Suc n)
  have le: "x \<le> hi"
  proof (rule ccontr)
    assume "\<not> x \<le> hi"
    then have "(hi - x) / s < 0" using s by (simp add: field_simps)
    then have "\<lfloor>(hi - x) / s\<rfloor> < 0" by linarith
    with Suc(2) show False by simp
  qed
  have n: "n = nat (\<lfloor>(hi - (x + s)) / s\<rfloor> + 1)"
    using Suc(2) grid_count_step [OF s le] by simp
  show ?case
    by (subst dataLoop.simps)
       (simp add: hi st le Let_def Suc(1) [OF n] grid_step [OF s le] round_to_def)
qed

lemma simLoop_finite:
  assumes s: "0 < s"
  shows "simLoop st (Num s) (Num hi) (Num x) acc =
           Some (acc @ filter plotted (map (simPoint st) (grid x hi s)))"
proof (induction "nat (\<lfloor>(hi - x) / s\<rfloor> + 1)" arbitrary: x acc)
  case 0
  then have "\<lfloor>(hi - x) / s\<rfloor> < 0" by linarith
  then have "(hi - x) / s < 0" by linarith
  then have gt: "hi < x" using s by (simp add: field_simps)
  show ?case
    by (subst simLoop.simps) (use gt in \<open>simp add: grid_empty [OF s]\<close>)
next
  case (Suc n)
  have le: "x \<le> hi"
  proof (rule ccontr)
    assume "\<not> x \<le> hi"
    then have "(hi - x) / s < 0" using s by (simp add: field_simps)
    then have "\<lfloor>(hi - x) / s\<rfloor> < 0" by linarith
    with Suc(2) show False by simp
  qed
  have n: "n = nat (\<lfloor>(hi - (x + s)) / s\<rfloor> + 1)"
    using Suc(2) grid_count_step [OF s le] by simp
  show ?case
    by (subst simLoop.simps)
       (simp add: le Let_def Suc(1) [OF n] grid_step [OF s le] round_to_def simPoint_def plotted_def)
qed

lemma simData_finite:
  "xrange st = Num r \<Longrightarrow>
   simData st = Some (filter plotted (map (simPoint st) (grid (- \<bar>r\<bar>) \<bar>r\<bar> (1 / 2))))"
  by (simp add: simData_def Let_def simLoop_finite)

lemma problemData_finite:
  assumes "prange p = \<lparr>rmin = Num lo, rmax = Num hi, rstep = Num s, defaultVal = dv\<rparr>" "0 < s"
  shows "problemData p = Some (map (\<lambda>raw. dataPoint p (Num (round_to 100 raw))) (grid lo hi s))"
  using assms by (simp add: problemData_def dataLoop_finite [where hi = hi and s = s])

lemma simData_candidates:
  "xrange st = Num r \<Longrightarrow> simData st = Some (filter plotted (simCandidates st r))"
  by (simp add: simData_finite simCandidates_def)

lemma problemData_points:
  assumes "prange p = \<lparr>rmin = Num lo, rmax = Num hi, rstep = Num s, defaultVal = dv\<rparr>" "0 < s"
  shows "problemData p = Some (problemPoints p lo hi s)"
  using assms by (simp add: problemData_finite problemPoints_def)





lemma rounded_id: "rounded (\<lambda>u. u) v = v"
  by (cases v) simp_all

lemma dataLoop_to_fl:
  assumes "dataLoop p x acc = Some pts"
  shows "dataLoop_fl (\<lambda>u. u) p x acc = Some pts"
proof (rule dataLoop.raw_induct [where xa = "((p, x), acc)" and y = pts
    and P = "\<lambda>p x acc pts. dataLoop_fl (\<lambda>u. u) p x acc = Some pts", unfolded prod.case,
    OF _ assms])
  fix f p x points y
  assume ih: "\<And>p x points y. f p x points = Some y \<Longrightarrow>
      dataLoop_fl (\<lambda>u. u) p x points = Some y"
    and eq: "(if x \<le> rmax (prange p)
      then let cleanX = Math_round (x * Num 100) / Num 100
           in f p (x + rstep (prange p)) (points @ [dataPoint p cleanX])
      else Some points) = Some y"
  show "dataLoop_fl (\<lambda>u. u) p x points = Some y"
  proof (cases "x \<le> rmax (prange p)")
    case False
    with eq show ?thesis by (subst dataLoop_fl.simps) simp
  next
    case True
    with eq have "f p (x + rstep (prange p))
        (points @ [dataPoint p (Math_round (x * Num 100) / Num 100)]) = Some y"
      by (simp add: Let_def)
    then have "dataLoop_fl (\<lambda>u. u) p (x + rstep (prange p))
        (points @ [dataPoint p (Math_round (x * Num 100) / Num 100)]) = Some y"
      by (rule ih)
    with True show ?thesis
      by (subst dataLoop_fl.simps) (simp add: Let_def rounded_id)
  qed
qed

lemma dataLoop_of_fl:
  assumes "dataLoop_fl (\<lambda>u. u) p x acc = Some pts"
  shows "dataLoop p x acc = Some pts"
proof -
  have "(\<lambda>u. u) = (\<lambda>u::real. u) \<longrightarrow> dataLoop p x acc = Some pts"
  proof (rule dataLoop_fl.raw_induct [where xa = "(((\<lambda>u. u, p), x), acc)" and y = pts
      and P = "\<lambda>fl p x acc pts. fl = (\<lambda>u. u) \<longrightarrow> dataLoop p x acc = Some pts",
      unfolded prod.case, OF _ assms])
    fix f fl p x points y
    assume ih: "\<And>fl p x points y. f fl p x points = Some y \<Longrightarrow>
        fl = (\<lambda>u. u) \<longrightarrow> dataLoop p x points = Some y"
      and eq: "(if x \<le> rmax (prange p)
        then let cleanX = rounded fl (Math_round (rounded fl (x * Num 100)) / Num 100)
             in f fl p (rounded fl (x + rstep (prange p))) (points @ [dataPoint p cleanX])
        else Some points) = Some y"
    show "fl = (\<lambda>u. u) \<longrightarrow> dataLoop p x points = Some y"
    proof
      assume fl: "fl = (\<lambda>u. u)"
      show "dataLoop p x points = Some y"
      proof (cases "x \<le> rmax (prange p)")
        case False
        with eq show ?thesis by (subst dataLoop.simps) simp
      next
        case True
        with eq have "f fl p (x + rstep (prange p))
            (points @ [dataPoint p (Math_round (x * Num 100) / Num 100)]) = Some y"
          by (simp add: Let_def fl rounded_id)
        then have "fl = (\<lambda>u. u) \<longrightarrow> dataLoop p (x + rstep (prange p))
            (points @ [dataPoint p (Math_round (x * Num 100) / Num 100)]) = Some y"
          by (rule ih)
        with True fl show ?thesis
          by (subst dataLoop.simps) (simp add: Let_def)
      qed
    qed
  qed
  then show ?thesis by simp
qed

lemma dataLoop_fl_identity: "dataLoop_fl (\<lambda>u. u) p x acc = dataLoop p x acc"
proof (cases "dataLoop p x acc")
  case (Some pts)
  then show ?thesis by (simp add: dataLoop_to_fl)
next
  case None
  show ?thesis
  proof (cases "dataLoop_fl (\<lambda>u. u) p x acc")
    case None
    with \<open>dataLoop p x acc = None\<close> show ?thesis by simp
  next
    case (Some pts)
    then have "dataLoop p x acc = Some pts" by (rule dataLoop_of_fl)
    with None show ?thesis by simp
  qed
qed

lemma simLoop_to_fl:
  assumes "simLoop st step endx x acc = Some pts"
  shows "simLoop_fl (\<lambda>u. u) st step endx x acc = Some pts"
proof (rule simLoop.raw_induct [where xa = "((((st, step), endx), x), acc)" and y = pts
    and P = "\<lambda>st step endx x acc pts. simLoop_fl (\<lambda>u. u) st step endx x acc = Some pts",
    unfolded prod.case, OF _ assms])
  fix f st step endx x points y
  assume ih: "\<And>st step endx x points y. f st step endx x points = Some y \<Longrightarrow>
      simLoop_fl (\<lambda>u. u) st step endx x points = Some y"
    and eq: "(if x \<le> endx
      then let cleanX = Math_round (x * Num 10) / Num 10; y = simY st cleanX
           in f st step endx (x + step)
               (if Math_abs y < Num 200
                then points @ [\<lparr>pt_x = cleanX, pt_y = y, pt_y2 = None\<rparr>]
                else points)
      else Some points) = Some y"
  show "simLoop_fl (\<lambda>u. u) st step endx x points = Some y"
  proof (cases "x \<le> endx")
    case False
    with eq show ?thesis by (subst simLoop_fl.simps) simp
  next
    case True
    let ?cleanX = "Math_round (x * Num 10) / Num 10"
    let ?y = "simY st ?cleanX"
    let ?acc = "if Math_abs ?y < Num 200
        then points @ [\<lparr>pt_x = ?cleanX, pt_y = ?y, pt_y2 = None\<rparr>] else points"
    from eq True have "f st step endx (x + step) ?acc = Some y"
      by (simp add: Let_def split del: if_split)
    then have "simLoop_fl (\<lambda>u. u) st step endx (x + step) ?acc = Some y" by (rule ih)
    with True show ?thesis
      by (subst simLoop_fl.simps) (simp add: Let_def rounded_id split del: if_split)
  qed
qed

lemma simLoop_of_fl:
  assumes "simLoop_fl (\<lambda>u. u) st step endx x acc = Some pts"
  shows "simLoop st step endx x acc = Some pts"
proof -
  have "(\<lambda>u. u) = (\<lambda>u::real. u) \<longrightarrow> simLoop st step endx x acc = Some pts"
  proof (rule simLoop_fl.raw_induct
      [where xa = "(((((\<lambda>u. u, st), step), endx), x), acc)" and y = pts
      and P = "\<lambda>fl st step endx x acc pts. fl = (\<lambda>u. u) \<longrightarrow>
        simLoop st step endx x acc = Some pts",
      unfolded prod.case, OF _ assms])
    fix f fl st step endx x points y
    assume ih: "\<And>fl st step endx x points y. f fl st step endx x points = Some y \<Longrightarrow>
        fl = (\<lambda>u. u) \<longrightarrow> simLoop st step endx x points = Some y"
      and eq: "(if x \<le> endx
        then let cleanX = rounded fl (Math_round (rounded fl (x * Num 10)) / Num 10);
                 y = simY st cleanX
             in f fl st step endx (rounded fl (x + step))
                 (if Math_abs y < Num 200
                  then points @ [\<lparr>pt_x = cleanX, pt_y = y, pt_y2 = None\<rparr>]
                  else points)
        else Some points) = Some y"
    show "fl = (\<lambda>u. u) \<longrightarrow> simLoop st step endx x points = Some y"
    proof
      assume fl: "fl = (\<lambda>u. u)"
      show "simLoop st step endx x points = Some y"
      proof (cases "x \<le> endx")
        case False
        with eq show ?thesis by (subst simLoop.simps) simp
      next
        case True
        let ?cleanX = "Math_round (x * Num 10) / Num 10"
        let ?y = "simY st ?cleanX"
        let ?acc = "if Math_abs ?y < Num 200
            then points @ [\<lparr>pt_x = ?cleanX, pt_y = ?y, pt_y2 = None\<rparr>] else points"
        from eq True have "f fl st step endx (x + step) ?acc = Some y"
          by (simp add: Let_def fl rounded_id split del: if_split)
        then have "fl = (\<lambda>u. u) \<longrightarrow> simLoop st step endx (x + step) ?acc = Some y"
          by (rule ih)
        with True fl show ?thesis
          by (subst simLoop.simps) (simp add: Let_def split del: if_split)
      qed
    qed
  qed
  then show ?thesis by simp
qed

lemma simLoop_fl_identity:
  "simLoop_fl (\<lambda>u. u) st step endx x acc = simLoop st step endx x acc"
proof (cases "simLoop st step endx x acc")
  case (Some pts)
  then show ?thesis by (simp add: simLoop_to_fl)
next
  case None
  show ?thesis
  proof (cases "simLoop_fl (\<lambda>u. u) st step endx x acc")
    case None
    with \<open>simLoop st step endx x acc = None\<close> show ?thesis by simp
  next
    case (Some pts)
    then have "simLoop st step endx x acc = Some pts" by (rule simLoop_of_fl)
    with None show ?thesis by simp
  qed
qed

lemma problemData_fl_identity: "problemData_fl (\<lambda>u. u) p = problemData p"
  by (simp add: problemData_fl_def problemData_def dataLoop_fl_identity)

lemma simData_fl_identity: "simData_fl (\<lambda>u. u) st = simData st"
  by (simp add: simData_fl_def simData_def simLoop_fl_identity)

text \<open>Whatever the range, a sample that the simulator returns holds plotted points only.\<close>

lemmas simLoop_rule = simLoop.raw_induct [where xa = "((((st, step), endx), x), acc)" and y = pts
    and P = "\<lambda>st step endx x acc pts. list_all plotted acc \<longrightarrow> list_all plotted pts", unfolded prod.case] for st step endx x acc pts

lemma simLoop_plotted:
  assumes "simLoop st step endx x acc = Some pts" and "list_all plotted acc"
  shows "list_all plotted pts"
proof -
  have "list_all plotted acc \<longrightarrow> list_all plotted pts"
  proof (rule simLoop_rule [OF _ assms(1)])
    fix f st step endx x points sta
    assume ih: "\<And>st step endx x points y. f st step endx x points = Some y \<Longrightarrow>
        list_all plotted points \<longrightarrow> list_all plotted y"
      and eq: "(if x \<le> endx
      then let cleanX = Math_round (x * Num 10) / Num 10; y = simY st cleanX
           in f st step endx (x + step)
               (if Math_abs y < Num 200
                then points @ [\<lparr>pt_x = cleanX, pt_y = y, pt_y2 = None\<rparr>]
                else points)
      else Some points) = Some sta"
    show "list_all plotted points \<longrightarrow> list_all plotted sta"
    proof (cases "x \<le> endx")
      case False
      with eq show ?thesis by simp
    next
      case True
      let ?cleanX = "Math_round (x * Num 10) / Num 10"
      let ?y = "simY st ?cleanX"
      let ?acc = "if Math_abs ?y < Num 200
          then points @ [\<lparr>pt_x = ?cleanX, pt_y = ?y, pt_y2 = None\<rparr>] else points"
      from eq True have "f st step endx (x + step) ?acc = Some sta"
        by (simp add: Let_def split del: if_split)
      then have "list_all plotted ?acc \<longrightarrow> list_all plotted sta" by (rule ih)
      moreover have "list_all plotted points \<longrightarrow> list_all plotted ?acc"
        by (simp add: plotted_def)
      ultimately show ?thesis by blast
    qed
  qed
  with assms(2) show ?thesis by simp
qed

lemma simData_plotted: "simData st = Some pts \<Longrightarrow> list_all plotted pts"
  by (rule simLoop_plotted [where acc = "[]"]) (simp_all add: simData_def Let_def)

lemma plotted_iff: "plotted pt \<longleftrightarrow> (\<exists>v. pt_y pt = Num v \<and> \<bar>v\<bar> < 200)"
  by (cases "pt_y pt") (simp_all add: plotted_def)



lemma pt_x_dataPoint [simp]: "pt_x (dataPoint p c) = c"
  by (simp add: dataPoint_def Let_def)












section \<open>Facts about the catalog\<close>

lemma builtin_ids: "map pid DEFAULT_PROBLEMS = [''car_rental'', ''snowball'', ''anesthesia'']"
  by (simp add: DEFAULT_PROBLEMS_def car_rental_def snowball_def anesthesia_def)

lemma builtin_not_custom: "d \<in> set DEFAULT_PROBLEMS \<Longrightarrow> \<not> isCustom d"
  by (auto simp: DEFAULT_PROBLEMS_def car_rental_def snowball_def anesthesia_def)

lemma find_append_fresh:
  "i \<notin> set (map pid ps) \<Longrightarrow> find (\<lambda>q. pid q = i) (ps @ [p]) = (if pid p = i then Some p else None)"
  by (induction ps) auto

lemma find_filter_none:
  "find P xs = None \<Longrightarrow> find P (filter Q xs) = None"
  by (auto simp: find_None_iff)

lemma handleDelete_problems:
  "handleDelete i st = Inr st' \<Longrightarrow> problems st' = filter (\<lambda>p. pid p \<noteq> i) (problems st)"
  by (auto simp: handleDelete_def Let_def split: if_splits list.splits)

lemma add5: "handleAddProblem 5 builtin_state =
   builtin_state\<lparr>problems := DEFAULT_PROBLEMS @ [custom_5], activeId := ''custom_5''\<rparr>"
  by (simp add: handleAddProblem_def builtin_state_def initialDraft_def custom_5_def Let_def
      string_of_nat_digit digit_def)

lemma add7:
  "handleAddProblem 7 (builtin_state\<lparr>newProblem := negative_base_draft\<rparr>) =
     builtin_state\<lparr>newProblem := negative_base_draft,
       problems := DEFAULT_PROBLEMS @ [custom_7], activeId := ''custom_7''\<rparr>"
  by (simp add: handleAddProblem_def builtin_state_def negative_base_draft_def initialDraft_def
      no_params_def custom_7_def custom_5_def Let_def string_of_nat_digit digit_def)

lemma custom_id_not_builtin: "''custom_'' @ s \<notin> set (map pid DEFAULT_PROBLEMS)"
  by (simp add: builtin_ids)

lemma custom_id_inj: "custom_id n = custom_id m \<Longrightarrow> n = m"
  by (simp add: custom_id_def string_of_nat_inj)

lemma custom_id_fresh:
  assumes ids: "ids_from_clock earlier ps" and new: "now \<notin> set earlier"
  shows "custom_id now \<notin> set (map pid ps)"
proof
  assume "custom_id now \<in> set (map pid ps)"
  then obtain q where q: "q \<in> set ps" "pid q = custom_id now" by auto
  from ids q(1) have "pid q \<in> set (map pid DEFAULT_PROBLEMS) \<or>
      pid q \<in> set (map custom_id earlier)"
    by (simp add: ids_from_clock_def list_all_iff)
  with q(2) have "custom_id now \<in> set (map pid DEFAULT_PROBLEMS) \<or>
      custom_id now \<in> set (map custom_id earlier)"
    by simp
  then show False
  proof
    assume "custom_id now \<in> set (map pid DEFAULT_PROBLEMS)"
    then show False using custom_id_not_builtin [of "string_of_nat now"] by (simp add: custom_id_def)
  next
    assume "custom_id now \<in> set (map custom_id earlier)"
    then obtain m where "m \<in> set earlier" "custom_id now = custom_id m" by auto
    with new show False by (auto dest: custom_id_inj)
  qed
qed

lemma default_filled_num_or: "default_filled v d (Some (num_or v d))"
proof (cases v)
  case None
  then show ?thesis by simp
next
  case (Some w)
  then show ?thesis by (cases w) simp_all
qed

lemma find_hd_filter:
  "i \<in> set (map pid ps) \<Longrightarrow>
   find (\<lambda>q. pid q = i) ps = Some (hd (filter (\<lambda>q. pid q = i) ps))"
  by (induction ps) auto

lemma well_formed_has_builtins: "well_formed (problems st) \<Longrightarrow> has_builtins st"
  by (auto simp: well_formed_def has_builtins_def)

lemma initialState_without_storage: "initialState parse None = builtin_state"
  by (simp add: initialState_def initProblems_def builtin_state_def)

lemma well_formed_initProblems:
  assumes "\<And>s cs. saved = Some s \<Longrightarrow> parse s = Some cs \<Longrightarrow> list_all custom_entry cs"
  shows "well_formed (initProblems parse saved)"
proof -
  have base: "well_formed DEFAULT_PROBLEMS"
    by (simp add: well_formed_def)
  show ?thesis
  proof (cases saved)
    case None
    then show ?thesis using base by (simp add: initProblems_def)
  next
    case (Some s)
    show ?thesis
    proof (cases "parse s")
      case None
      with Some base show ?thesis by (simp add: initProblems_def)
    next
      case (Some cs)
      with \<open>saved = Some s\<close> assms have "list_all custom_entry cs" by blast
      with Some \<open>saved = Some s\<close> base show ?thesis
        by (auto simp: initProblems_def well_formed_def)
    qed
  qed
qed

lemma well_formed_add:
  assumes "well_formed (problems st)"
  shows "well_formed (problems (handleAddProblem now st))"
proof -
  from assms obtain cs where cs: "problems st = DEFAULT_PROBLEMS @ cs" "list_all custom_entry cs"
    by (auto simp: well_formed_def)
  obtain p where p: "problems (handleAddProblem now st) = problems st @ [p]"
      "pid p = ''custom_'' @ string_of_nat now" "isCustom p"
    by (simp add: handleAddProblem_def Let_def)
  have "custom_entry p"
    using p(2,3) custom_id_not_builtin [of "string_of_nat now"] by (simp add: custom_entry_def)
  with cs p(1) show ?thesis
    by (auto simp: well_formed_def intro!: exI [of _ "cs @ [p]"])
qed

lemma well_formed_delete:
  assumes wf: "well_formed (problems st)" and btn: "p \<in> set (deleteButtons st)"
  shows "\<exists>st'. handleDelete (pid p) st = Inr st' \<and> well_formed (problems st') \<and>
           length (problems st') < length (problems st)"
proof -
  from wf obtain cs where cs: "problems st = DEFAULT_PROBLEMS @ cs" "list_all custom_entry cs"
    by (auto simp: well_formed_def)
  from btn have "p \<in> set (problems st)" "isCustom p" by (auto simp: deleteButtons_def)
  with cs(1) builtin_not_custom have pin: "p \<in> set cs" by auto
  with cs(2) have "custom_entry p" by (simp add: list_all_iff)
  then have nb: "pid p \<notin> set (map pid DEFAULT_PROBLEMS)" by (simp add: custom_entry_def)
  then have "pid q \<noteq> pid p" if "q \<in> set DEFAULT_PROBLEMS" for q
    using that by (metis image_eqI set_map)
  then have keep: "filter (\<lambda>q. pid q \<noteq> pid p) DEFAULT_PROBLEMS = DEFAULT_PROBLEMS"
    by (simp add: filter_id_conv)
  let ?cs = "filter (\<lambda>q. pid q \<noteq> pid p) cs"
  have new: "filter (\<lambda>q. pid q \<noteq> pid p) (problems st) = DEFAULT_PROBLEMS @ ?cs"
    by (simp add: cs(1) keep)
  have wf': "well_formed (DEFAULT_PROBLEMS @ ?cs)"
    using cs(2) by (auto simp: well_formed_def list_all_iff)
  have "length ?cs < length cs"
    using pin by (simp add: length_filter_less)
  then have less: "length (DEFAULT_PROBLEMS @ ?cs) < length (problems st)"
    by (simp add: cs(1))
  have shape: "DEFAULT_PROBLEMS @ ?cs = car_rental # [snowball, anesthesia] @ ?cs"
    by (simp add: DEFAULT_PROBLEMS_def)
  show ?thesis
    using wf' less by (auto simp: handleDelete_def Let_def new shape)
qed

section \<open>Samples of the example inputs\<close>

lemma grid_0_5: "grid 0 5 1 = [0, 1, 2, 3, 4, 5]"
  by (simp add: grid_def upt_rec)

lemma grid_0_1_half: "grid 0 1 (1 / 2) = [0, 1 / 2, 1]"
  by (simp add: grid_def upt_rec)

lemma grid_1: "grid (- 1) 1 (1 / 2) = [- 1, - 1 / 2, 0, 1 / 2, 1]"
  by (simp add: grid_def upt_rec)

lemma grid_7: "grid (- 7) 7 (1 / 2) =
  [- 7, - 13 / 2, - 6, - 11 / 2, - 5, - 9 / 2, - 4, - 7 / 2, - 3, - 5 / 2, - 2, - 3 / 2, - 1,
   - 1 / 2, 0, 1 / 2, 1, 3 / 2, 2, 5 / 2, 3, 7 / 2, 4, 9 / 2, 5, 11 / 2, 6, 13 / 2, 7]"
  by (simp add: grid_def upt_rec)

lemma custom_7_data:
  "problemData custom_7 =
     Some [\<lparr>pt_x = Num 0, pt_y = Num 10, pt_y2 = None\<rparr>,
           \<lparr>pt_x = Num 1, pt_y = Num (- 20), pt_y2 = None\<rparr>,
           \<lparr>pt_x = Num 2, pt_y = Num 40, pt_y2 = None\<rparr>,
           \<lparr>pt_x = Num 3, pt_y = Num (- 80), pt_y2 = None\<rparr>,
           \<lparr>pt_x = Num 4, pt_y = Num 160, pt_y2 = None\<rparr>,
           \<lparr>pt_x = Num 5, pt_y = Num (- 320), pt_y2 = None\<rparr>]"
proof -
  have "prange custom_7 = \<lparr>rmin = Num 0, rmax = Num 5, rstep = Num 1, defaultVal = Num 0\<rparr>"
    by (simp add: custom_7_def)
  then have "problemData custom_7 = Some (problemPoints custom_7 0 5 1)"
    by (rule problemData_points) simp
  then show ?thesis
    by (simp add: problemPoints_def grid_0_5 round_to_def dataPoint_def custom_7_def
        custom_5_def Let_def is_integer_def)
qed

lemma half_step_data:
  "problemData half_step_problem =
     Some [\<lparr>pt_x = Num 0, pt_y = Num 10, pt_y2 = None\<rparr>,
           \<lparr>pt_x = Num (1 / 2), pt_y = NaN, pt_y2 = None\<rparr>,
           \<lparr>pt_x = Num 1, pt_y = Num (- 20), pt_y2 = None\<rparr>]"
proof -
  have "prange half_step_problem =
      \<lparr>rmin = Num 0, rmax = Num 1, rstep = Num (1 / 2), defaultVal = Num 0\<rparr>"
    by (simp add: half_step_problem_def)
  then have "problemData half_step_problem = Some (problemPoints half_step_problem 0 1 (1 / 2))"
    by (rule problemData_points) simp
  then show ?thesis
    by (simp add: problemPoints_def grid_0_1_half round_to_def dataPoint_def
        half_step_problem_def custom_7_def custom_5_def Let_def is_integer_def)
qed






lemma parabola_point:
  "simPoint steep_parabola raw =
     \<lparr>pt_x = Num (round_to 10 raw), pt_y = Num (5 * (round_to 10 raw)\<^sup>2), pt_y2 = None\<rparr>"
  by (simp add: simPoint_def simY_def steep_parabola_def initialSimulator_def Math_pow_two
      del: Math_pow.simps)

lemma steep_parabola_data:
  "simData steep_parabola =
     Some (map (\<lambda>u. \<lparr>pt_x = Num u, pt_y = Num (5 * u\<^sup>2), pt_y2 = None\<rparr>)
       [- 6, - 11 / 2, - 5, - 9 / 2, - 4, - 7 / 2, - 3, - 5 / 2, - 2, - 3 / 2, - 1, - 1 / 2,
        0, 1 / 2, 1, 3 / 2, 2, 5 / 2, 3, 7 / 2, 4, 9 / 2, 5, 11 / 2, 6])"
proof -
  have "xrange steep_parabola = Num 7"
    by (simp add: steep_parabola_def initialSimulator_def)
  then have "simData steep_parabola = Some (filter plotted (simCandidates steep_parabola 7))"
    by (rule simData_candidates)
  then show ?thesis
    by (simp add: simCandidates_def grid_7 parabola_point plotted_def round_to_def
        power2_eq_square)
qed

lemma narrow_line_data:
  "simData narrow_line =
     Some [\<lparr>pt_x = Num (- 1), pt_y = Num (- 1), pt_y2 = None\<rparr>,
           \<lparr>pt_x = Num (- 1 / 2), pt_y = Num 0, pt_y2 = None\<rparr>,
           \<lparr>pt_x = Num 0, pt_y = Num 1, pt_y2 = None\<rparr>,
           \<lparr>pt_x = Num (1 / 2), pt_y = Num 2, pt_y2 = None\<rparr>,
           \<lparr>pt_x = Num 1, pt_y = Num 3, pt_y2 = None\<rparr>]"
proof -
  have "xrange narrow_line = Num 1"
    by (simp add: narrow_line_def initialSimulator_def)
  then have "simData narrow_line = Some (filter plotted (simCandidates narrow_line 1))"
    by (rule simData_candidates)
  then show ?thesis
    by (simp add: simCandidates_def grid_1 simPoint_def simY_def plotted_def round_to_def
        narrow_line_def initialSimulator_def)
qed

section \<open>The claims\<close>

subsection \<open>C1: deleting a built-in scenario\<close>

text \<open>
  C1 states that for every catalog and every id of an entry with \<open>isCustom = false\<close> the
  delete operation is rejected as a no-op, leaving the catalog size and the built-in
  entries unchanged. \<open>handleDelete\<close> has no such check: on the initial catalog it removes
  the built-in \<open>car_rental\<close> and selects \<open>snowball\<close>.
\<close>

theorem delete_builtin_counterexample:
  "\<not> isCustom car_rental \<and>
   problems builtin_state = [car_rental, snowball, anesthesia] \<and>
   handleDelete ''car_rental'' builtin_state =
     Inr (builtin_state\<lparr>problems := [snowball, anesthesia], activeId := ''snowball''\<rparr>)"
  by (simp add: handleDelete_def builtin_state_def DEFAULT_PROBLEMS_def car_rental_def
      snowball_def anesthesia_def Let_def)

text \<open>
  C1 as amended: the protection of the built-ins lies in the view, which renders a delete
  button for entries with \<open>isCustom = true\<close> only. A delete issued from such a button, in
  a catalog that holds a built-in entry and where no built-in entry shares the id,
  succeeds, removes the entries with that id and leaves the built-in entries as they
  were, in their order.
\<close>

theorem delete_offered_for_custom_only:
  assumes btn: "p \<in> set (deleteButtons st)"
      and ids: "pid p \<notin> set (map pid (builtins st))"
      and ex: "builtins st \<noteq> []"
  shows "isCustom p \<and>
         (\<exists>st'. handleDelete (pid p) st = Inr st' \<and> builtins st' = builtins st \<and>
            problems st' = filter (\<lambda>q. pid q \<noteq> pid p) (problems st))"
proof -
  let ?new = "filter (\<lambda>q. pid q \<noteq> pid p) (problems st)"
  have c: "isCustom p" using btn by (simp add: deleteButtons_def)
  have differ: "pid q \<noteq> pid p" if "q \<in> set (problems st)" "\<not> isCustom q" for q
  proof
    assume "pid q = pid p"
    moreover have "q \<in> set (builtins st)" using that by (simp add: builtins_def)
    ultimately have "pid p \<in> set (map pid (builtins st))" by (metis image_eqI set_map)
    with ids show False by simp
  qed
  then have keep: "filter (\<lambda>q. \<not> isCustom q) ?new = filter (\<lambda>q. \<not> isCustom q) (problems st)"
    by (auto intro: filter_cong)
  from ex obtain q where q: "q \<in> set (problems st)" "\<not> isCustom q"
    by (auto simp: builtins_def filter_empty_conv)
  with differ have "q \<in> set ?new" by simp
  then have "?new \<noteq> []" by (metis length_pos_if_in_set length_greater_0_conv)
  then obtain d ds where new: "?new = d # ds" by (cases ?new) auto
  then have "\<exists>st'. handleDelete (pid p) st = Inr st'"
    by (simp add: handleDelete_def Let_def)
  then obtain st' where st': "handleDelete (pid p) st = Inr st'" ..
  then have "problems st' = ?new" by (rule handleDelete_problems)
  with c keep st' show ?thesis by (simp add: builtins_def)
qed

theorem delete_offered_for_custom_only_witness:
  "custom_5 \<in> set (deleteButtons custom_state) \<and>
   pid custom_5 \<notin> set (map pid (builtins custom_state)) \<and>
   builtins custom_state = [car_rental, snowball, anesthesia] \<and>
   isCustom custom_5 \<and>
   handleDelete (pid custom_5) custom_state = Inr builtin_state \<and>
   builtins builtin_state = builtins custom_state \<and>
   problems builtin_state = [car_rental, snowball, anesthesia]"
  using delete_offered_for_custom_only [of custom_5 custom_state]
  by (simp add: deleteButtons_def builtins_def custom_state_def builtin_state_def
      DEFAULT_PROBLEMS_def car_rental_def snowball_def anesthesia_def custom_5_def
      handleDelete_def Let_def)

subsection \<open>C2: undefined values\<close>

text \<open>
  C2 states that in both samplers a point whose evaluation is undefined, in particular
  every point of an exponential with base \<open>\<le> 0\<close>, is left out, so that no \<open>NaN\<close> enters
  the sequence. The scenario sampler pushes a point at every step without looking at the
  value: the entry created from a form with base \<open>-2\<close> yields six points, and on a range
  with a half step the point at \<open>0.5\<close> carries \<open>NaN\<close>.
\<close>

theorem scenario_negative_base_counterexample:
  "problems (handleAddProblem 7 (builtin_state\<lparr>newProblem := negative_base_draft\<rparr>)) =
     DEFAULT_PROBLEMS @ [custom_7] \<and>
   ptype custom_7 = exponential_growth \<and> base (params custom_7) = Some (Num (- 2)) \<and>
   problemData custom_7 =
     Some [\<lparr>pt_x = Num 0, pt_y = Num 10, pt_y2 = None\<rparr>,
           \<lparr>pt_x = Num 1, pt_y = Num (- 20), pt_y2 = None\<rparr>,
           \<lparr>pt_x = Num 2, pt_y = Num 40, pt_y2 = None\<rparr>,
           \<lparr>pt_x = Num 3, pt_y = Num (- 80), pt_y2 = None\<rparr>,
           \<lparr>pt_x = Num 4, pt_y = Num 160, pt_y2 = None\<rparr>,
           \<lparr>pt_x = Num 5, pt_y = Num (- 320), pt_y2 = None\<rparr>] \<and>
   problemData half_step_problem =
     Some [\<lparr>pt_x = Num 0, pt_y = Num 10, pt_y2 = None\<rparr>,
           \<lparr>pt_x = Num (1 / 2), pt_y = NaN, pt_y2 = None\<rparr>,
           \<lparr>pt_x = Num 1, pt_y = Num (- 20), pt_y2 = None\<rparr>]"
  by (simp add: custom_7_data half_step_data add7) (simp add: custom_7_def custom_5_def)

text \<open>
  C2 as amended: the simulator's sampler never emits a point whose \<open>y\<close> is \<open>NaN\<close>, and for
  an exponential with base \<open>\<le> 0\<close> it emits no point at all. The scenario sampler omits
  nothing: on a finite range with a positive step it emits one point for every step of
  the loop.
\<close>

theorem undefined_points_left_out_by_simulator:
  "(simData st = Some pts \<longrightarrow> list_all (\<lambda>pt. pt_y pt \<noteq> NaN) pts) \<and>
   (activeTab st = EXPONENTIAL \<and> exp_base (exponential st) = Num u \<and> u \<le> 0 \<and>
      xrange st = Num r \<longrightarrow> simData st = Some []) \<and>
   (prange p = \<lparr>rmin = Num lo, rmax = Num hi, rstep = Num s, defaultVal = dv\<rparr> \<and> 0 < s \<longrightarrow>
      problemData p = Some (problemPoints p lo hi s) \<and>
      map pt_x (problemPoints p lo hi s) = map (\<lambda>raw. Num (round_to 100 raw)) (grid lo hi s))"
proof (intro conjI impI)
  assume "simData st = Some pts"
  then have "list_all plotted pts" by (rule simData_plotted)
  then show "list_all (\<lambda>pt. pt_y pt \<noteq> NaN) pts"
    by (auto simp: list_all_iff plotted_iff)
next
  assume h: "activeTab st = EXPONENTIAL \<and> exp_base (exponential st) = Num u \<and> u \<le> 0 \<and>
      xrange st = Num r"
  then have "simData st = Some (filter plotted (simCandidates st r))"
    by (simp add: simData_candidates)
  moreover have "\<not> plotted (simPoint st raw)" for raw
    using h by (simp add: plotted_def simPoint_def simY_def)
  ultimately show "simData st = Some []"
    by (simp add: simCandidates_def filter_empty_conv)
next
  assume "prange p = \<lparr>rmin = Num lo, rmax = Num hi, rstep = Num s, defaultVal = dv\<rparr> \<and> 0 < s"
  then show "problemData p = Some (problemPoints p lo hi s)"
    by (simp add: problemData_points)
next
  show "map pt_x (problemPoints p lo hi s) = map (\<lambda>raw. Num (round_to 100 raw)) (grid lo hi s)"
    by (simp add: problemPoints_def)
qed

theorem undefined_points_left_out_by_simulator_witness:
  "simData narrow_line =
     Some [\<lparr>pt_x = Num (- 1), pt_y = Num (- 1), pt_y2 = None\<rparr>,
           \<lparr>pt_x = Num (- 1 / 2), pt_y = Num 0, pt_y2 = None\<rparr>,
           \<lparr>pt_x = Num 0, pt_y = Num 1, pt_y2 = None\<rparr>,
           \<lparr>pt_x = Num (1 / 2), pt_y = Num 2, pt_y2 = None\<rparr>,
           \<lparr>pt_x = Num 1, pt_y = Num 3, pt_y2 = None\<rparr>] \<and>
   activeTab zero_base = EXPONENTIAL \<and> exp_base (exponential zero_base) = Num 0 \<and>
   (0::real) \<le> 0 \<and> xrange zero_base = Num 10 \<and> simData zero_base = Some [] \<and>
   prange half_step_problem =
     \<lparr>rmin = Num 0, rmax = Num 1, rstep = Num (1 / 2), defaultVal = Num 0\<rparr> \<and>
   (0::real) < 1 / 2 \<and>
   problemData half_step_problem = Some (problemPoints half_step_problem 0 1 (1 / 2)) \<and>
   map pt_x (problemPoints half_step_problem 0 1 (1 / 2)) = [Num 0, Num (1 / 2), Num 1]"
  using undefined_points_left_out_by_simulator
      [of zero_base "[]" 0 10 half_step_problem 0 1 "1 / 2" "Num 0"]
  by (simp add: narrow_line_data)
     (simp add: zero_base_def initialSimulator_def half_step_problem_def grid_0_1_half
       round_to_def)

subsection \<open>C3: creation without a name\<close>

text \<open>
  C3 states that a creation attempt without a name or title adds no entry, in the
  simulator's save action and in the scenario store's create action. The simulator does
  abandon the save. \<open>handleAddProblem\<close> does not: with the title left empty it still
  appends an entry, under the title \<open>Nuevo Problema\<close>.
\<close>

theorem create_without_title_counterexample:
  "d_title (newProblem builtin_state) = None \<and>
   problems (handleAddProblem 5 builtin_state) = problems builtin_state @ [custom_5] \<and>
   length (problems (handleAddProblem 5 builtin_state)) = 4"
  by (simp add: add5) (simp add: builtin_state_def initialDraft_def DEFAULT_PROBLEMS_def)

text \<open>
  C3 as amended: a save in the simulator whose prompt is cancelled or left empty leaves the
  simulator's state unchanged. In the scenario store only the modal's cancel button
  abandons a creation; \<open>handleAddProblem\<close> with no title appends exactly one entry,
  titled \<open>Nuevo Problema\<close>.
\<close>

theorem creation_without_name:
  "handleSave None now today sim = sim \<and>
   handleSave (Some []) now today sim = sim \<and>
   problems (cancelModal st) = problems st \<and>
   (d_title (newProblem st) = None \<or> d_title (newProblem st) = Some [] \<longrightarrow>
      (\<exists>p. problems (handleAddProblem now st) = problems st @ [p] \<and>
           title p = ''Nuevo Problema''))"
  by (auto simp: handleSave_def cancelModal_def handleAddProblem_def Let_def)

theorem creation_without_name_witness:
  "handleSave None 5 ''3/11/2026'' initialSimulator = initialSimulator \<and>
   handleSave (Some []) 5 ''3/11/2026'' initialSimulator = initialSimulator \<and>
   d_title (newProblem builtin_state) = None \<and>
   problems (handleAddProblem 5 builtin_state) = problems builtin_state @ [custom_5] \<and>
   title custom_5 = ''Nuevo Problema''"
  using creation_without_name [of 5 "''3/11/2026''" initialSimulator builtin_state]
  by (simp add: add5) (simp add: builtin_state_def initialDraft_def custom_5_def)

subsection \<open>C4: creating a scenario\<close>

text \<open>
  C4 states that every create call fills the unset numeric fields with the defaults
  (slope 1, intercept 0, base 1.1, initial 10), assigns a fresh unique id, appends the
  entry at the end of the catalog and makes it the active entry. The id is
  \<open>custom_\<close> followed by the clock's milliseconds and is not compared with the ids in the
  catalog: a second creation at the same clock value repeats the id, and the selection
  then resolves to the older entry.
\<close>

theorem create_same_timestamp_counterexample:
  "problems (handleAddProblem 5 refilled_state) =
     DEFAULT_PROBLEMS @ [custom_5, custom_7\<lparr>pid := ''custom_5''\<rparr>] \<and>
   \<not> distinct (map pid (problems (handleAddProblem 5 refilled_state))) \<and>
   activeProblem (handleAddProblem 5 refilled_state) = Some custom_5 \<and>
   custom_5 \<noteq> custom_7\<lparr>pid := ''custom_5''\<rparr>"
  by (simp add: handleAddProblem_def refilled_state_def custom_state_def builtin_state_def
      negative_base_draft_def initialDraft_def no_params_def custom_7_def custom_5_def Let_def
      string_of_nat_digit digit_def activeProblem_def DEFAULT_PROBLEMS_def car_rental_def
      snowball_def anesthesia_def)

text \<open>
  C4 as amended. Every create call appends one entry, marked custom, whose id is
  \<open>custom_\<close> followed by the clock value; each of its numeric fields is default-filled
  from the form: the default (slope 1, intercept 0, base 1.1, initial 10, second slope 1,
  second intercept 0, range maximum 50) when the input is unset, and the supplied number
  when that is not zero. When the clock value differs from the clock values of the
  earlier creations, the ids of the catalog being built-in ids or ids given at those
  values, the new id occurs nowhere in the catalog, the ids stay distinct if they were,
  the active selection resolves to the new entry, and the catalog's ids are again ids
  given by the clock. That the decimal digits of two different clock values differ is
  part of the proof.
\<close>

theorem create_fills_defaults_and_selects:
  "\<exists>p. problems (handleAddProblem now st) = problems st @ [p] \<and>
       pid p = custom_id now \<and> isCustom p \<and> ptype p = d_type (newProblem st) \<and>
       default_filled (Option.bind (d_params (newProblem st)) slope) (Num 1)
         (slope (params p)) \<and>
       default_filled (Option.bind (d_params (newProblem st)) intercept) (Num 0)
         (intercept (params p)) \<and>
       default_filled (Option.bind (d_params (newProblem st)) base) (Num (11 / 10))
         (base (params p)) \<and>
       default_filled (Option.bind (d_params (newProblem st)) initial) (Num 10)
         (initial (params p)) \<and>
       default_filled (Option.bind (d_params (newProblem st)) slope2) (Num 1)
         (slope2 (params p)) \<and>
       default_filled (Option.bind (d_params (newProblem st)) intercept2) (Num 0)
         (intercept2 (params p)) \<and>
       default_filled (map_option rmax (d_range (newProblem st))) (Num 50)
         (Some (rmax (prange p))) \<and>
       rmin (prange p) = Num 0 \<and> rstep (prange p) = Num 1 \<and>
       (ids_from_clock earlier (problems st) \<and> now \<notin> set earlier \<longrightarrow>
          pid p \<notin> set (map pid (problems st)) \<and>
          distinct (map pid (problems (handleAddProblem now st))) =
            distinct (map pid (problems st)) \<and>
          activeProblem (handleAddProblem now st) = Some p \<and>
          ids_from_clock (now # earlier) (problems (handleAddProblem now st)))"
proof -
  let ?p = "last (problems (handleAddProblem now st))"
  have fields: "problems (handleAddProblem now st) = problems st @ [?p]"
    "pid ?p = custom_id now" "isCustom ?p" "ptype ?p = d_type (newProblem st)"
    "default_filled (Option.bind (d_params (newProblem st)) slope) (Num 1) (slope (params ?p))"
    "default_filled (Option.bind (d_params (newProblem st)) intercept) (Num 0)
       (intercept (params ?p))"
    "default_filled (Option.bind (d_params (newProblem st)) base) (Num (11 / 10))
       (base (params ?p))"
    "default_filled (Option.bind (d_params (newProblem st)) initial) (Num 10)
       (initial (params ?p))"
    "default_filled (Option.bind (d_params (newProblem st)) slope2) (Num 1)
       (slope2 (params ?p))"
    "default_filled (Option.bind (d_params (newProblem st)) intercept2) (Num 0)
       (intercept2 (params ?p))"
    "default_filled (map_option rmax (d_range (newProblem st))) (Num 50)
       (Some (rmax (prange ?p)))"
    "rmin (prange ?p) = Num 0" "rstep (prange ?p) = Num 1"
    by (simp_all add: handleAddProblem_def Let_def default_filled_num_or custom_id_def)
  have clock: "pid ?p \<notin> set (map pid (problems st)) \<and>
      distinct (map pid (problems (handleAddProblem now st))) =
        distinct (map pid (problems st)) \<and>
      activeProblem (handleAddProblem now st) = Some ?p \<and>
      ids_from_clock (now # earlier) (problems (handleAddProblem now st))"
    if h: "ids_from_clock earlier (problems st) \<and> now \<notin> set earlier"
  proof -
    from h have fresh: "custom_id now \<notin> set (map pid (problems st))"
      by (intro custom_id_fresh [of earlier]) simp_all
    from h have keep: "ids_from_clock (now # earlier) (problems st)"
      by (auto simp: ids_from_clock_def list_all_iff)
    have act: "activeId (handleAddProblem now st) = custom_id now"
      by (simp add: handleAddProblem_def Let_def custom_id_def)
    have "find (\<lambda>q. pid q = custom_id now) (problems st @ [?p]) = Some ?p"
      using fresh fields(2) by (simp add: find_append_fresh)
    then have active: "activeProblem (handleAddProblem now st) = Some ?p"
      by (simp add: activeProblem_def act fields(1) [symmetric])
    have "distinct (map pid (problems st @ [?p])) = distinct (map pid (problems st))"
      using fresh fields(2) by simp
    then have dist: "distinct (map pid (problems (handleAddProblem now st))) =
        distinct (map pid (problems st))"
      by (simp only: fields(1) [symmetric])
    have "ids_from_clock (now # earlier) (problems st @ [?p])"
      using keep fields(2) by (simp add: ids_from_clock_def)
    then have "ids_from_clock (now # earlier) (problems (handleAddProblem now st))"
      by (simp only: fields(1) [symmetric])
    with fresh fields(2) dist active show ?thesis by simp
  qed
  from fields clock show ?thesis by (intro exI [of _ ?p]) blast
qed

theorem create_fills_defaults_and_selects_witness:
  "ids_from_clock [] (problems builtin_state) \<and> 5 \<notin> set ([]::nat list) \<and>
   problems (handleAddProblem 5 builtin_state) = problems builtin_state @ [custom_5] \<and>
   activeProblem (handleAddProblem 5 builtin_state) = Some custom_5 \<and>
   pid custom_5 = custom_id 5 \<and>
   d_params (newProblem builtin_state) = None \<and>
   slope (params custom_5) = Some (Num 1) \<and> intercept (params custom_5) = Some (Num 0) \<and>
   base (params custom_5) = Some (Num (11 / 10)) \<and> initial (params custom_5) = Some (Num 10) \<and>
   ids_from_clock [5] (problems refilled_state) \<and> 7 \<notin> set [5::nat] \<and>
   problems (handleAddProblem 7 refilled_state) = problems refilled_state @ [custom_7] \<and>
   activeProblem (handleAddProblem 7 refilled_state) = Some custom_7 \<and>
   Option.bind (d_params (newProblem refilled_state)) base = Some (Num (- 2)) \<and>
   base (params custom_7) = Some (Num (- 2)) \<and>
   distinct (map pid (problems (handleAddProblem 7 refilled_state)))"
  using create_fills_defaults_and_selects [of 5 builtin_state "[]"]
    create_fills_defaults_and_selects [of 7 refilled_state "[5]"]
  by (simp add: add5)
     (simp add: handleAddProblem_def refilled_state_def custom_state_def builtin_state_def
       negative_base_draft_def initialDraft_def no_params_def custom_7_def custom_5_def Let_def
       string_of_nat_digit digit_def activeProblem_def DEFAULT_PROBLEMS_def car_rental_def
       snowball_def anesthesia_def custom_id_def ids_from_clock_def)

subsection \<open>C5: the active selection\<close>

text \<open>
  C5 states that in every catalog state the active selection resolves to an existing
  entry, the first entry when \<open>activeId\<close> names none, and that deleting the active entry
  moves the selection to the first remaining entry. Neither \<open>problems[0]\<close> nor
  \<open>newDocs[0]\<close> is guarded against an empty list, and \<open>handleDelete\<close> removes every
  entry that has the deleted id. When the stored custom entries carry the ids of the
  built-in entries, each has a delete button; the first two deletes also remove the
  built-in entries of those ids, and the third leaves nothing: it fails on
  \<open>newDocs[0].id\<close>, after \<open>setProblems\<close> was given the empty catalog, in which nothing
  resolves and the sample fails on \<open>activeProblem.range\<close>.
\<close>

theorem empty_catalog_counterexample:
  "car_rental\<lparr>isCustom := True\<rparr> \<in> set (deleteButtons shadowed_state) \<and>
   handleDelete ''car_rental'' shadowed_state = Inr after_first_delete \<and>
   snowball\<lparr>isCustom := True\<rparr> \<in> set (deleteButtons after_first_delete) \<and>
   handleDelete ''snowball'' after_first_delete = Inr after_second_delete \<and>
   anesthesia\<lparr>isCustom := True\<rparr> \<in> set (deleteButtons after_second_delete) \<and>
   activeProblem after_second_delete = Some anesthesia \<and>
   filter (\<lambda>q. pid q \<noteq> ''anesthesia'') (problems after_second_delete) = [] \<and>
   handleDelete ''anesthesia'' after_second_delete = Inl TypeError \<and>
   activeProblem (after_second_delete\<lparr>problems := []\<rparr>) = None \<and>
   data (after_second_delete\<lparr>problems := []\<rparr>) = Inl TypeError"
  by (simp add: shadowed_state_def after_first_delete_def after_second_delete_def
      initialState_def initProblems_def parse_shadows_def shadows_def deleteButtons_def
      handleDelete_def activeProblem_def data_def Let_def DEFAULT_PROBLEMS_def car_rental_def
      snowball_def anesthesia_def)

text \<open>
  C5 as amended: the active selection resolves to nothing exactly when the catalog is
  empty. In a non-empty catalog it resolves to an entry of the catalog, so that reading
  its range for the sample does not fail: to the first entry whose id is \<open>activeId\<close>
  when there is one, and to the first entry of the catalog otherwise. When the active
  entry is deleted and an entry with another id remains, the delete succeeds, the
  remaining entries keep their order, the first of them becomes the active entry, and
  \<open>activeId\<close> is set to its id if it named the deleted entry.
\<close>

theorem active_selection_resolves:
  "(activeProblem st = None) = (problems st = []) \<and>
   (problems st \<noteq> [] \<longrightarrow>
      (\<exists>p. activeProblem st = Some p \<and> p \<in> set (problems st)) \<and> data st \<noteq> Inl TypeError) \<and>
   (activeId st \<in> set (map pid (problems st)) \<longrightarrow>
      activeProblem st = Some (hd (filter (\<lambda>q. pid q = activeId st) (problems st))) \<and>
      (\<exists>p. activeProblem st = Some p \<and> pid p = activeId st)) \<and>
   (problems st \<noteq> [] \<and> activeId st \<notin> set (map pid (problems st)) \<longrightarrow>
      activeProblem st = Some (hd (problems st))) \<and>
   (activeProblem st = Some p \<and> filter (\<lambda>q. pid q \<noteq> pid p) (problems st) \<noteq> [] \<longrightarrow>
      (\<exists>d ds st'. filter (\<lambda>q. pid q \<noteq> pid p) (problems st) = d # ds \<and>
         handleDelete (pid p) st = Inr st' \<and> problems st' = d # ds \<and>
         activeProblem st' = Some d \<and>
         (activeId st = pid p \<longrightarrow> activeId st' = pid d)))"
proof (intro conjI impI)
  show none: "(activeProblem st = None) = (problems st = [])"
    by (cases "problems st") (auto simp: activeProblem_def split: option.splits)
next
  assume ne: "problems st \<noteq> []"
  then obtain q qs where ps: "problems st = q # qs" by (cases "problems st") auto
  show active: "\<exists>p. activeProblem st = Some p \<and> p \<in> set (problems st)"
  proof (cases "find (\<lambda>p. pid p = activeId st) (problems st)")
    case None
    then show ?thesis by (simp add: activeProblem_def ps)
  next
    case (Some p)
    then have "p \<in> set (problems st)" by (auto simp: find_Some_iff)
    with Some show ?thesis by (simp add: activeProblem_def)
  qed
  from active show "data st \<noteq> Inl TypeError" by (auto simp: data_def)
next
  assume m: "activeId st \<in> set (map pid (problems st))"
  let ?p = "hd (filter (\<lambda>q. pid q = activeId st) (problems st))"
  from find_hd_filter [OF m]
  show a: "activeProblem st = Some ?p" by (simp add: activeProblem_def)
  from m have "filter (\<lambda>q. pid q = activeId st) (problems st) \<noteq> []"
    by (auto simp: filter_empty_conv)
  then have "?p \<in> set (filter (\<lambda>q. pid q = activeId st) (problems st))" by (rule hd_in_set)
  then have "pid ?p = activeId st" by simp
  with a show "\<exists>p. activeProblem st = Some p \<and> pid p = activeId st" by blast
next
  assume h: "problems st \<noteq> [] \<and> activeId st \<notin> set (map pid (problems st))"
  then obtain q qs where ps: "problems st = q # qs" by (cases "problems st") auto
  from h have "find (\<lambda>p. pid p = activeId st) (problems st) = None"
    by (force simp: find_None_iff)
  then show "activeProblem st = Some (hd (problems st))" by (simp add: activeProblem_def ps)
next
  assume h: "activeProblem st = Some p \<and> filter (\<lambda>q. pid q \<noteq> pid p) (problems st) \<noteq> []"
  then have ap: "activeProblem st = Some p" by simp
  let ?new = "filter (\<lambda>q. pid q \<noteq> pid p) (problems st)"
  from h obtain d ds where new: "?new = d # ds" by (cases ?new) auto
  show "\<exists>d ds st'. ?new = d # ds \<and> handleDelete (pid p) st = Inr st' \<and>
          problems st' = d # ds \<and> activeProblem st' = Some d \<and>
          (activeId st = pid p \<longrightarrow> activeId st' = pid d)"
  proof (cases "activeId st = pid p")
    case True
    with new show ?thesis by (simp add: handleDelete_def Let_def activeProblem_def)
  next
    case False
    have none: "find (\<lambda>q. pid q = activeId st) (problems st) = None"
    proof (cases "find (\<lambda>q. pid q = activeId st) (problems st)")
      case None
      then show ?thesis .
    next
      case (Some r)
      with ap have "r = p" by (simp add: activeProblem_def)
      moreover from Some have "pid r = activeId st" by (auto simp: find_Some_iff)
      ultimately show ?thesis using False by simp
    qed
    then have "find (\<lambda>q. pid q = activeId st) ?new = None" by (rule find_filter_none)
    with new False show ?thesis
      by (simp add: handleDelete_def Let_def activeProblem_def)
  qed
qed

theorem active_selection_resolves_witness:
  "problems custom_state \<noteq> [] \<and>
   activeId custom_state \<in> set (map pid (problems custom_state)) \<and>
   activeProblem custom_state = Some custom_5 \<and> pid custom_5 = activeId custom_state \<and>
   data custom_state = Inr (problemData custom_5) \<and>
   problems dangling_state \<noteq> [] \<and>
   activeId dangling_state \<notin> set (map pid (problems dangling_state)) \<and>
   activeProblem dangling_state = Some car_rental \<and>
   filter (\<lambda>q. pid q \<noteq> pid custom_5) (problems custom_state) \<noteq> [] \<and>
   handleDelete (pid custom_5) custom_state = Inr builtin_state \<and>
   activeProblem builtin_state = Some car_rental \<and>
   activeId builtin_state = pid car_rental"
  using active_selection_resolves [of custom_state custom_5]
    active_selection_resolves [of dangling_state car_rental]
  by (simp add: custom_state_def dangling_state_def builtin_state_def
      activeProblem_def data_def handleDelete_def Let_def DEFAULT_PROBLEMS_def car_rental_def
      snowball_def anesthesia_def custom_5_def)

subsection \<open>C6: analysis of the quadratic\<close>

text \<open>
  C6: for \<open>a \<noteq> 0\<close> the analysis reports the discriminant \<open>b\<^sup>2 - 4ac\<close>; no real roots when
  it is negative, the single root \<open>-b/2a\<close> when it is zero, and otherwise the two roots
  \<open>(-b \<plusminus> \<surd>\<Delta>)/2a\<close> with the \<open>+\<close> root first; and the vertex \<open>(-b/2a, f(-b/2a))\<close>. For
  \<open>a = 1, b = -6, c = 5\<close> the vertex is \<open>(3, -4)\<close>, the discriminant 16 and the roots 5
  and 1.
\<close>

theorem quadratic_analysis:
  assumes "a \<noteq> 0"
  shows "getQuadraticAnalysis \<lparr>quad_a = Num a, quad_b = Num b, quad_c = Num c\<rparr> =
    \<lparr>concavidad = (if 0 < a then Convexa else Concava),
     vertice = (Num (- b / (2 * a)), Num (a * (- b / (2 * a))\<^sup>2 + b * (- b / (2 * a)) + c)),
     discriminante = Num (b\<^sup>2 - 4 * a * c),
     raices =
       (if b\<^sup>2 - 4 * a * c < 0 then NoReales
        else if b\<^sup>2 - 4 * a * c = 0 then OneRoot (Num (- b / (2 * a)))
        else TwoRoots (Num ((- b + sqrt (b\<^sup>2 - 4 * a * c)) / (2 * a)))
               (Num ((- b - sqrt (b\<^sup>2 - 4 * a * c)) / (2 * a))))\<rparr>"
  using assms
  by (simp add: getQuadraticAnalysis_def Let_def Math_pow_two del: Math_pow.simps)

theorem quadratic_analysis_witness:
  "(1::real) \<noteq> 0 \<and>
   getQuadraticAnalysis (quadratic initialSimulator) =
     \<lparr>concavidad = Convexa, vertice = (Num 3, Num (- 4)), discriminante = Num 16,
      raices = TwoRoots (Num 5) (Num 1)\<rparr>"
  using quadratic_analysis [of 1 "- 6" 5] by (simp add: sqrt_16 initialSimulator_def)

subsection \<open>C7: analysis of the exponential\<close>

text \<open>
  C7: the exponential is classified as growth (\<open>Creciente\<close>) when the base exceeds 1 and
  as decay (\<open>Decreciente\<close>) when the base lies between 0 and 1; the base 1 gives a result
  too (the label is \<open>Decreciente\<close>); the y-intercept is \<open>k\<close> and the asymptote \<open>y = 0\<close>.
\<close>

theorem exponential_analysis_classifies:
  "(1 < u \<longrightarrow> tipo (exponentialAnalysis \<lparr>exp_base = Num u, exp_k = kk\<rparr>) = ''Creciente'') \<and>
   (0 < u \<and> u < 1 \<longrightarrow>
      tipo (exponentialAnalysis \<lparr>exp_base = Num u, exp_k = kk\<rparr>) = ''Decreciente'') \<and>
   tipo (exponentialAnalysis \<lparr>exp_base = Num 1, exp_k = kk\<rparr>) = ''Decreciente'' \<and>
   corteEjeY (exponentialAnalysis \<lparr>exp_base = Num u, exp_k = kk\<rparr>) = kk \<and>
   asintota (exponentialAnalysis \<lparr>exp_base = Num u, exp_k = kk\<rparr>) = ''y = 0''"
  by (simp add: exponentialAnalysis_def)

theorem exponential_analysis_classifies_witness:
  "(1::real) < 3 / 2 \<and>
   exponentialAnalysis (exponential initialSimulator) =
     \<lparr>tipo = ''Creciente'', corteEjeY = Num 1, asintota = ''y = 0''\<rparr> \<and>
   (0::real) < 95 / 100 \<and> (95::real) / 100 < 1 \<and>
   exponentialAnalysis \<lparr>exp_base = Num (95 / 100), exp_k = Num 100\<rparr> =
     \<lparr>tipo = ''Decreciente'', corteEjeY = Num 100, asintota = ''y = 0''\<rparr>"
  using exponential_analysis_classifies [of "3 / 2" "Num 1"]
    exponential_analysis_classifies [of "95 / 100" "Num 100"]
  by (simp add: exponentialAnalysis_def initialSimulator_def)

subsection \<open>C8: rounding and order of the sample positions\<close>





subsection \<open>C9: the magnitude filter\<close>

text \<open>
  C9: the simulator emits a point only when \<open>|y| < 200\<close> (the other candidates are
  dropped), and the scenario sampler applies no such filter: it emits every point of
  its range.
\<close>

theorem magnitude_filter_in_simulator_only:
  "(simData st = Some pts \<longrightarrow> list_all (\<lambda>pt. \<exists>v. pt_y pt = Num v \<and> \<bar>v\<bar> < 200) pts) \<and>
   (xrange st = Num r \<longrightarrow> simData st = Some (filter plotted (simCandidates st r))) \<and>
   (prange p = \<lparr>rmin = Num lo, rmax = Num hi, rstep = Num s, defaultVal = dv\<rparr> \<and> 0 < s \<longrightarrow>
      problemData p = Some (problemPoints p lo hi s) \<and>
      length (problemPoints p lo hi s) = length (grid lo hi s))"
proof (intro conjI impI)
  assume "simData st = Some pts"
  then have "list_all plotted pts" by (rule simData_plotted)
  then show "list_all (\<lambda>pt. \<exists>v. pt_y pt = Num v \<and> \<bar>v\<bar> < 200) pts"
    by (simp add: list_all_iff plotted_iff)
next
  assume "xrange st = Num r"
  then show "simData st = Some (filter plotted (simCandidates st r))"
    by (rule simData_candidates)
next
  assume "prange p = \<lparr>rmin = Num lo, rmax = Num hi, rstep = Num s, defaultVal = dv\<rparr> \<and> 0 < s"
  then show "problemData p = Some (problemPoints p lo hi s)"
    by (simp add: problemData_points)
next
  show "length (problemPoints p lo hi s) = length (grid lo hi s)"
    by (simp add: problemPoints_def)
qed

theorem magnitude_filter_in_simulator_only_witness:
  "xrange steep_parabola = Num 7 \<and>
   length (simCandidates steep_parabola 7) = 29 \<and>
   simData steep_parabola =
     Some (map (\<lambda>u. \<lparr>pt_x = Num u, pt_y = Num (5 * u\<^sup>2), pt_y2 = None\<rparr>)
       [- 6, - 11 / 2, - 5, - 9 / 2, - 4, - 7 / 2, - 3, - 5 / 2, - 2, - 3 / 2, - 1, - 1 / 2,
        0, 1 / 2, 1, 3 / 2, 2, 5 / 2, 3, 7 / 2, 4, 9 / 2, 5, 11 / 2, 6]) \<and>
   prange custom_7 = \<lparr>rmin = Num 0, rmax = Num 5, rstep = Num 1, defaultVal = Num 0\<rparr> \<and>
   (0::real) < 1 \<and>
   problemData custom_7 = Some (problemPoints custom_7 0 5 1) \<and>
   last (problemPoints custom_7 0 5 1) = \<lparr>pt_x = Num 5, pt_y = Num (- 320), pt_y2 = None\<rparr>"
proof -
  have l: "last (problemPoints custom_7 0 5 1) = \<lparr>pt_x = Num 5, pt_y = Num (- 320), pt_y2 = None\<rparr>"
    by (simp add: problemPoints_def grid_0_5 round_to_def dataPoint_def custom_7_def
        custom_5_def Let_def is_integer_def)
  show ?thesis
    using magnitude_filter_in_simulator_only
        [of steep_parabola "the (simData steep_parabola)" 7 custom_7 0 5 1 "Num 0"]
    by (simp add: steep_parabola_data l simCandidates_def grid_7)
       (simp add: steep_parabola_def initialSimulator_def custom_7_def)
qed

subsection \<open>C10: persistence of the custom entries\<close>

text \<open>
  C10: after each change of the catalog the value written to the store is the
  serialization of exactly the entries with \<open>isCustom = true\<close>, never a built-in; and the
  initial catalog is the built-in list alone when the store holds nothing or what it
  holds does not parse.
\<close>

theorem persistence_contract:
  "localStorage (create stringify now st) =
     Some (stringify (filter isCustom (problems (handleAddProblem now st)))) \<and>
   (delete stringify i t = Inr t' \<longrightarrow>
      localStorage t' = Some (stringify (filter isCustom (problems t'))) \<and>
      problems t' = filter (\<lambda>p. pid p \<noteq> i) (problems t)) \<and>
   set (filter isCustom ps) \<inter> set DEFAULT_PROBLEMS = {} \<and>
   (list_all isCustom cs \<longrightarrow> filter isCustom (DEFAULT_PROBLEMS @ cs) = cs) \<and>
   initProblems parse None = DEFAULT_PROBLEMS \<and>
   initProblems parse (Some []) = DEFAULT_PROBLEMS \<and>
   (parse s = None \<longrightarrow> initProblems parse (Some s) = DEFAULT_PROBLEMS)"
proof -
  have "localStorage t' = Some (stringify (filter isCustom (problems t'))) \<and>
      problems t' = filter (\<lambda>p. pid p \<noteq> i) (problems t)"
    if d: "delete stringify i t = Inr t'"
  proof (cases "handleDelete i t")
    case (Inl e)
    with d show ?thesis by (simp add: delete_def)
  next
    case (Inr t'')
    with d have t': "t' = saveEffect stringify t''" by (simp add: delete_def)
    from Inr have "problems t'' = filter (\<lambda>p. pid p \<noteq> i) (problems t)"
      by (rule handleDelete_problems)
    then show ?thesis by (simp add: t' saveEffect_def Let_def)
  qed
  then have "delete stringify i t = Inr t' \<longrightarrow>
      localStorage t' = Some (stringify (filter isCustom (problems t'))) \<and>
      problems t' = filter (\<lambda>p. pid p \<noteq> i) (problems t)" by blast
  moreover have "set (filter isCustom ps) \<inter> set DEFAULT_PROBLEMS = {}"
    using builtin_not_custom by auto
  moreover have "list_all isCustom cs \<longrightarrow> filter isCustom (DEFAULT_PROBLEMS @ cs) = cs"
    using builtin_not_custom by (auto simp: list_all_iff filter_empty_conv)
  ultimately show ?thesis
    by (simp add: create_def saveEffect_def Let_def initProblems_def)
qed

theorem persistence_contract_witness:
  "localStorage (create count_only 5 builtin_state) = Some ''1'' \<and>
   delete count_only ''custom_5'' custom_state = Inr (builtin_state\<lparr>localStorage := Some ''0''\<rparr>) \<and>
   list_all isCustom [custom_5] \<and>
   filter isCustom (DEFAULT_PROBLEMS @ [custom_5]) = [custom_5] \<and>
   parse_fails ''{'' = None \<and>
   initProblems parse_fails (Some ''{'') = DEFAULT_PROBLEMS"
proof -
  have customs: "filter isCustom (DEFAULT_PROBLEMS @ [custom_5]) = [custom_5]"
    by (simp add: DEFAULT_PROBLEMS_def car_rental_def snowball_def anesthesia_def custom_5_def)
  have created: "localStorage (create count_only 5 builtin_state) = Some ''1''"
    by (simp add: create_def saveEffect_def add5 customs count_only_def string_of_nat_digit
        digit_def del: filter_append filter.simps)
  have deleted: "delete count_only ''custom_5'' custom_state =
      Inr (builtin_state\<lparr>localStorage := Some ''0''\<rparr>)"
    by (simp add: delete_def handleDelete_def saveEffect_def Let_def count_only_def
        string_of_nat_digit digit_def custom_state_def builtin_state_def DEFAULT_PROBLEMS_def
        car_rental_def snowball_def anesthesia_def custom_5_def)
  show ?thesis
    using persistence_contract [of count_only 5 builtin_state "''custom_5''" custom_state
        "builtin_state\<lparr>localStorage := Some ''0''\<rparr>" "[custom_5]" "[custom_5]" parse_fails
        "''{''"]
      created deleted customs
    by (simp add: parse_fails_def custom_5_def)
qed

section \<open>Further properties\<close>

text \<open>
  The handlers the view can call keep the shape of the catalog: the built-in entries
  first, in their order, then custom entries with other ids. The initial catalog without
  stored data has this shape, a creation keeps it, and so does a delete issued from a
  rendered button, which then never fails.
\<close>

theorem catalog_shape_is_kept:
  "well_formed (problems (initialState parse None)) \<and>
   (well_formed (problems st) \<longrightarrow>
      has_builtins st \<and> well_formed (problems (handleAddProblem now st))) \<and>
   (well_formed (problems st) \<and> p \<in> set (deleteButtons st) \<longrightarrow>
      (\<exists>st'. handleDelete (pid p) st = Inr st' \<and> well_formed (problems st') \<and>
         length (problems st') < length (problems st)))"
  using well_formed_initProblems [of None parse] well_formed_has_builtins [of st]
    well_formed_add [of st now] well_formed_delete [of st p]
  by (simp add: initialState_def)

theorem catalog_shape_is_kept_witness:
  "well_formed (problems builtin_state) \<and> well_formed (problems custom_state) \<and>
   problems (handleAddProblem 5 builtin_state) = problems custom_state \<and>
   custom_5 \<in> set (deleteButtons custom_state) \<and>
   handleDelete (pid custom_5) custom_state = Inr builtin_state"
proof -
  have a: "problems (handleAddProblem 5 builtin_state) = problems custom_state"
    by (simp add: add5 custom_state_def)
  have b: "custom_5 \<in> set (deleteButtons custom_state)"
    by (simp add: deleteButtons_def custom_state_def builtin_state_def custom_5_def)
  have c: "handleDelete (pid custom_5) custom_state = Inr builtin_state"
    by (simp add: handleDelete_def Let_def custom_state_def builtin_state_def
        DEFAULT_PROBLEMS_def car_rental_def snowball_def anesthesia_def custom_5_def)
  have d: "problems (initialState parse_fails None) = problems builtin_state"
    by (simp add: initialState_without_storage)
  show ?thesis
    using catalog_shape_is_kept [of parse_fails builtin_state 5 custom_5]
      catalog_shape_is_kept [of parse_fails custom_state 5 custom_5] a b c d
    by simp
qed

text \<open>
  For \<open>a \<noteq> 0\<close> and a discriminant that is not negative, the roots that the analysis
  reports are zeros of \<open>a x\<^sup>2 + b x + c\<close>.
\<close>

theorem reported_roots_are_zeros:
  assumes "a \<noteq> 0" and "0 \<le> b\<^sup>2 - 4 * a * c"
  shows "\<exists>r1 r2.
          raices (getQuadraticAnalysis \<lparr>quad_a = Num a, quad_b = Num b, quad_c = Num c\<rparr>) =
            (if b\<^sup>2 - 4 * a * c = 0 then OneRoot (Num r1) else TwoRoots (Num r1) (Num r2)) \<and>
          a * r1\<^sup>2 + b * r1 + c = 0 \<and> a * r2\<^sup>2 + b * r2 + c = 0"
proof -
  let ?d = "sqrt (b\<^sup>2 - 4 * a * c)"
  have plus: "a * ((- b + ?d) / (2 * a))\<^sup>2 + b * ((- b + ?d) / (2 * a)) + c = 0"
    using assms by (intro quadratic_zero) simp_all
  have "a * ((- b + - ?d) / (2 * a))\<^sup>2 + b * ((- b + - ?d) / (2 * a)) + c = 0"
    using assms by (intro quadratic_zero) simp_all
  then have minus: "a * ((- b - ?d) / (2 * a))\<^sup>2 + b * ((- b - ?d) / (2 * a)) + c = 0"
    by simp
  have rs: "raices (getQuadraticAnalysis \<lparr>quad_a = Num a, quad_b = Num b, quad_c = Num c\<rparr>) =
      (if b\<^sup>2 - 4 * a * c = 0 then OneRoot (Num (- b / (2 * a)))
       else TwoRoots (Num ((- b + ?d) / (2 * a))) (Num ((- b - ?d) / (2 * a))))"
    using assms by (simp add: getQuadraticAnalysis_def Let_def Math_pow_two del: Math_pow.simps)
  show ?thesis
  proof (cases "b\<^sup>2 - 4 * a * c = 0")
    case True
    with plus have z: "a * (- b / (2 * a))\<^sup>2 + b * (- b / (2 * a)) + c = 0" by simp
    show ?thesis
      by (rule exI [of _ "- b / (2 * a)"], rule exI [of _ "- b / (2 * a)"])
         (simp only: rs True z if_True simp_thms)
  next
    case False
    show ?thesis
      by (rule exI [of _ "(- b + ?d) / (2 * a)"], rule exI [of _ "(- b - ?d) / (2 * a)"])
         (simp only: rs False plus minus if_False simp_thms)
  qed
qed

theorem reported_roots_are_zeros_witness:
  "(1::real) \<noteq> 0 \<and> (0::real) \<le> (- 6)\<^sup>2 - 4 * 1 * 5 \<and>
   raices (getQuadraticAnalysis (quadratic initialSimulator)) = TwoRoots (Num 5) (Num 1) \<and>
   (1::real) * 5\<^sup>2 + (- 6) * 5 + 5 = 0 \<and> (1::real) * 1\<^sup>2 + (- 6) * 1 + 5 = 0"
  using reported_roots_are_zeros [of 1 "- 6" 5]
  by (simp add: getQuadraticAnalysis_def Let_def Math_pow_two sqrt_16 initialSimulator_def
      del: Math_pow.simps)

end
